theory Spec2Isabelle
  imports Main
begin

unbundle bit_operations_syntax

section \<open>Python values\<close>

text \<open>
  The exceptions the script can meet. \<open>UnboundLocalError\<close> is Python's subclass of
  \<open>NameError\<close> for a local variable that is read before it is bound. \<open>URLError\<close> stands
  for every failure of a request that is not an HTTP status (refused connection, timeout,
  name resolution, an undecodable body), \<open>SubprocessError\<close> for every failure of the
  \<open>docker ps\<close> subprocess. All of them are subclasses of \<open>Exception\<close>.
\<close>

datatype exn =
    HTTPError nat
  | URLError
  | SubprocessError
  | KeyError
  | TypeError
  | AttributeError
  | IndexError
  | UnboundLocalError
  | ValueError
  | BinasciiError
  | StructError
  | ZeroDivisionError

text \<open>A byte of a \<open>bytes\<close> object is an integer between 0 and 255.\<close>

type_synonym byte = int

text \<open>
  What \<open>json.loads\<close> returns. A dict is an association list read with \<open>map_of\<close>.
  Numbers are integers: no claim looks at a fractional number.
\<close>

datatype json =
    JNull
  | JBool bool
  | JInt int
  | JStr string
  | JArr "json list"
  | JObj "(string \<times> json) list"

fun truthy :: "json \<Rightarrow> bool" where
  "truthy JNull = False"
| "truthy (JBool b) = b"
| "truthy (JInt i) = (i \<noteq> 0)"
| "truthy (JStr s) = (s \<noteq> [])"
| "truthy (JArr xs) = (xs \<noteq> [])"
| "truthy (JObj kvs) = (kvs \<noteq> [])"

text \<open>\<open>d.get(k, default)\<close> on a dict.\<close>

definition get :: "(string \<times> json) list \<Rightarrow> string \<Rightarrow> json \<Rightarrow> json" where
  "get kvs k d = (case map_of kvs k of None \<Rightarrow> d | Some v \<Rightarrow> v)"

text \<open>Only a dict has \<open>.get\<close>: on any other value the attribute lookup raises.\<close>

fun as_dict :: "json \<Rightarrow> exn + (string \<times> json) list" where
  "as_dict (JObj kvs) = Inr kvs"
| "as_dict _ = Inl AttributeError"

text \<open>\<open>x[k]\<close> with a string key.\<close>

fun getitem :: "json \<Rightarrow> string \<Rightarrow> exn + json" where
  "getitem (JObj kvs) k = (case map_of kvs k of None \<Rightarrow> Inl KeyError | Some v \<Rightarrow> Inr v)"
| "getitem _ k = Inl TypeError"

text \<open>\<open>x[:n]\<close>: strings and lists can be sliced, everything else raises.\<close>

fun slice_to :: "nat \<Rightarrow> json \<Rightarrow> exn + json" where
  "slice_to n (JStr s) = Inr (JStr (take n s))"
| "slice_to n (JArr xs) = Inr (JArr (take n xs))"
| "slice_to n _ = Inl TypeError"

section \<open>Library functions\<close>

subsection \<open>Lists and strings\<close>

fun chunks :: "nat \<Rightarrow> 'a list \<Rightarrow> 'a list list" where
  "chunks n [] = []"
| "chunks n (x # xs) =
     (if n = 0 then [x # xs] else take n (x # xs) # chunks n (drop n (x # xs)))"

fun index_of :: "'a \<Rightarrow> 'a list \<Rightarrow> nat option" where
  "index_of x [] = None"
| "index_of x (y # ys) = (if x = y then Some 0 else map_option Suc (index_of x ys))"

definition upper :: "char \<Rightarrow> char" where
  "upper c =
     (case index_of c ''abcdefghijklmnopqrstuvwxyz'' of
        None \<Rightarrow> c
      | Some i \<Rightarrow> ''ABCDEFGHIJKLMNOPQRSTUVWXYZ'' ! i)"

definition rstrip :: "char \<Rightarrow> string \<Rightarrow> string" where
  "rstrip c s = rev (dropWhile (\<lambda>x. x = c) (rev s))"

definition isspace :: "char \<Rightarrow> bool" where
  "isspace c =
     (c \<in> set [CHR 0x09, CHR 0x0A, CHR 0x0B, CHR 0x0C, CHR 0x0D, CHR 0x1C, CHR 0x1D,
               CHR 0x1E, CHR 0x1F, CHR 0x20, CHR 0x85, CHR 0xA0])"

definition strip :: "string \<Rightarrow> string" where
  "strip s = rev (dropWhile isspace (rev (dropWhile isspace s)))"

fun split :: "char \<Rightarrow> string \<Rightarrow> string list" where
  "split sep [] = [[]]"
| "split sep (c # cs) =
     (if c = sep then [] # split sep cs
      else (case split sep cs of [] \<Rightarrow> [[c]] | l # ls \<Rightarrow> (c # l) # ls))"

fun startswith :: "string \<Rightarrow> string \<Rightarrow> bool" where
  "startswith [] s = True"
| "startswith (p # ps) [] = False"
| "startswith (p # ps) (c # cs) = (p = c \<and> startswith ps cs)"

text \<open>\<open>p in s\<close> for two strings.\<close>

fun contains :: "string \<Rightarrow> string \<Rightarrow> bool" where
  "contains p [] = (p = [])"
| "contains p (c # cs) = (startswith p (c # cs) \<or> contains p cs)"

subsection \<open>Big-endian integers: int.to_bytes, struct.pack, struct.unpack\<close>

fun to_bytes :: "nat \<Rightarrow> int \<Rightarrow> byte list" where
  "to_bytes 0 v = []"
| "to_bytes (Suc n) v = to_bytes n (drop_bit 8 v) @ [v AND 0xFF]"

fun from_bytes :: "int \<Rightarrow> byte list \<Rightarrow> int" where
  "from_bytes acc [] = acc"
| "from_bytes acc (b # bs) = from_bytes (push_bit 8 acc + b) bs"

text \<open>\<open>struct.pack(">Q", v)\<close> raises \<open>struct.error\<close> outside the unsigned 64-bit range.\<close>

definition struct_pack_Q :: "int \<Rightarrow> exn + byte list" where
  "struct_pack_Q v = (if 0 \<le> v \<and> v < 2 ^ 64 then Inr (to_bytes 8 v) else Inl StructError)"

text \<open>\<open>struct.unpack(">I", bs)[0]\<close> raises \<open>struct.error\<close> unless there are four bytes.\<close>

definition struct_unpack_I :: "byte list \<Rightarrow> exn + int" where
  "struct_unpack_I bs = (if length bs = 4 then Inr (from_bytes 0 bs) else Inl StructError)"

subsection \<open>base64.b32decode with casefold=True\<close>

text \<open>
  CPython's decoder, step by step: the text must be ASCII and a multiple of eight
  characters long; it is upper-cased, the trailing \<open>=\<close> are stripped and counted, every
  group of up to eight characters is accumulated five bits at a time into five bytes, and
  the bytes of the last group that the padding does not cover are cut off.
\<close>

definition b32alphabet :: string where
  "b32alphabet = ''ABCDEFGHIJKLMNOPQRSTUVWXYZ234567''"

fun b32_acc :: "int \<Rightarrow> string \<Rightarrow> int option" where
  "b32_acc acc [] = Some acc"
| "b32_acc acc (c # cs) =
     (case index_of c b32alphabet of
        None \<Rightarrow> None
      | Some v \<Rightarrow> b32_acc (push_bit 5 acc + int v) cs)"

fun b32_quanta :: "byte list \<Rightarrow> int \<Rightarrow> string list \<Rightarrow> (byte list \<times> int) option" where
  "b32_quanta decoded acc [] = Some (decoded, acc)"
| "b32_quanta decoded acc (q # qs) =
     (case b32_acc 0 q of
        None \<Rightarrow> None
      | Some acc' \<Rightarrow> b32_quanta (decoded @ to_bytes 5 acc') acc' qs)"

definition b32decode :: "string \<Rightarrow> exn + byte list" where
  "b32decode s0 =
     (if \<not> list_all (\<lambda>c. \<not> digit7 c) s0 then Inl ValueError
      else if length s0 mod 8 \<noteq> 0 then Inl BinasciiError
      else
        let s1 = map upper s0;
            l = length s1;
            s = rstrip CHR ''='' s1;
            padchars = l - length s
        in case b32_quanta [] 0 (chunks 8 s) of
             None \<Rightarrow> Inl BinasciiError
           | Some (decoded, acc) \<Rightarrow>
               if padchars \<notin> {0, 1, 3, 4, 6} then Inl BinasciiError
               else if padchars \<noteq> 0 \<and> decoded \<noteq> [] then
                 Inr (take (length decoded - 5) decoded @
                      take ((43 - 5 * padchars) div 8)
                        (to_bytes 5 (push_bit (5 * padchars) acc)))
               else Inr decoded)"

subsection \<open>hashlib.sha1 and hmac\<close>

text \<open>
  SHA-1 as FIPS 180-4 defines it and HMAC as RFC 2104 defines it, on Python integers:
  a 32-bit word is an integer kept below \<open>2 ^ 32\<close> by masking with \<open>0xFFFFFFFF\<close>.
\<close>

type_synonym u32 = int

definition rotl :: "nat \<Rightarrow> u32 \<Rightarrow> u32" where
  "rotl n x = (push_bit n x AND 0xFFFFFFFF) OR drop_bit (32 - n) x"

definition sha1_pad :: "byte list \<Rightarrow> byte list" where
  "sha1_pad m =
     m @ [0x80] @ replicate ((119 - length m mod 64) mod 64) 0 @
     to_bytes 8 (8 * int (length m))"

text \<open>
  The message schedule is kept newest word first, so that the word \<open>W(t-3)\<close> is
  \<open>r ! 2\<close> and \<open>W(t-16)\<close> is \<open>r ! 15\<close>.
\<close>

fun schedule :: "nat \<Rightarrow> u32 list \<Rightarrow> u32 list" where
  "schedule 0 r = r"
| "schedule (Suc n) r = schedule n (rotl 1 (r ! 2 XOR r ! 7 XOR r ! 13 XOR r ! 15) # r)"

definition sha1_f :: "nat \<Rightarrow> u32 \<Rightarrow> u32 \<Rightarrow> u32 \<Rightarrow> u32" where
  "sha1_f t b c d =
     (if t < 20 then (b AND c) OR ((b XOR 0xFFFFFFFF) AND d)
      else if t < 40 then b XOR c XOR d
      else if t < 60 then (b AND c) OR (b AND d) OR (c AND d)
      else b XOR c XOR d)"

definition sha1_k :: "nat \<Rightarrow> u32" where
  "sha1_k t =
     (if t < 20 then 0x5A827999 else if t < 40 then 0x6ED9EBA1
      else if t < 60 then 0x8F1BBCDC else 0xCA62C1D6)"

type_synonym sha1_state = "u32 \<times> u32 \<times> u32 \<times> u32 \<times> u32"

fun rounds :: "nat \<Rightarrow> u32 list \<Rightarrow> sha1_state \<Rightarrow> sha1_state" where
  "rounds t [] s = s"
| "rounds t (w # ws) (a, b, c, d, e) =
     rounds (t + 1) ws
       ((rotl 5 a + sha1_f t b c d + e + sha1_k t + w) AND 0xFFFFFFFF, a, rotl 30 b, c, d)"

fun add_state :: "sha1_state \<Rightarrow> sha1_state \<Rightarrow> sha1_state" where
  "add_state (h0, h1, h2, h3, h4) (a, b, c, d, e) =
     ((h0 + a) AND 0xFFFFFFFF, (h1 + b) AND 0xFFFFFFFF, (h2 + c) AND 0xFFFFFFFF,
      (h3 + d) AND 0xFFFFFFFF, (h4 + e) AND 0xFFFFFFFF)"

definition compress :: "sha1_state \<Rightarrow> byte list \<Rightarrow> sha1_state" where
  "compress h blk =
     add_state h (rounds 0 (rev (schedule 64 (rev (map (from_bytes 0) (chunks 4 blk))))) h)"

fun digest_bytes :: "sha1_state \<Rightarrow> byte list" where
  "digest_bytes (a, b, c, d, e) =
     to_bytes 4 a @ to_bytes 4 b @ to_bytes 4 c @ to_bytes 4 d @ to_bytes 4 e"

definition sha1 :: "byte list \<Rightarrow> byte list" where
  "sha1 m =
     digest_bytes
       (foldl compress (0x67452301, 0xEFCDAB89, 0x98BADCFE, 0x10325476, 0xC3D2E1F0)
          (chunks 64 (sha1_pad m)))"

definition xor_bytes :: "byte \<Rightarrow> byte list \<Rightarrow> byte list" where
  "xor_bytes c bs = map (\<lambda>b. b XOR c) bs"

text \<open>The key, hashed when longer than a block, then filled with zeros to 64 bytes.\<close>

definition hmac_key :: "byte list \<Rightarrow> byte list" where
  "hmac_key key =
     (if length key > 64 then sha1 key else key) @
     replicate (64 - length (if length key > 64 then sha1 key else key)) 0"

definition hmac_digest :: "byte list \<Rightarrow> byte list \<Rightarrow> byte list" where
  "hmac_digest k msg = sha1 (xor_bytes 0x5C k @ sha1 (xor_bytes 0x36 k @ msg))"

text \<open>\<open>hmac.new(key, msg, hashlib.sha1).digest()\<close>.\<close>

definition hmac_sha1 :: "byte list \<Rightarrow> byte list \<Rightarrow> byte list" where
  "hmac_sha1 key msg = hmac_digest (hmac_key key) msg"

subsection \<open>str and str.zfill\<close>

definition digit_char :: "nat \<Rightarrow> char" where
  "digit_char d = ''0123456789'' ! d"

function digits :: "nat \<Rightarrow> string" where
  "digits n = (if n < 10 then [digit_char n] else digits (n div 10) @ [digit_char (n mod 10)])"
  by pat_completeness auto
termination
  by (relation "measure id") auto

declare digits.simps [simp del]

definition str_int :: "int \<Rightarrow> string" where
  "str_int i = (if i < 0 then CHR ''-'' # digits (nat (- i)) else digits (nat i))"

text \<open>\<open>s.zfill(width)\<close> puts the zeros after a leading sign.\<close>

definition zfill :: "nat \<Rightarrow> string \<Rightarrow> string" where
  "zfill width s =
     (case s of
        c # cs \<Rightarrow>
          if c = CHR ''+'' \<or> c = CHR ''-''
          then c # replicate (width - length s) CHR ''0'' @ cs
          else replicate (width - length s) CHR ''0'' @ s
      | [] \<Rightarrow> replicate width CHR ''0'')"

section \<open>generate_totp\<close>

text \<open>
  The source reads the clock itself; here \<open>now\<close> is the value of \<open>int(time.time())\<close>.
  The last byte \<open>h[-1]\<close> is read behind a check that \<open>h\<close> is not empty, and the slice
  \<open>h[offset : offset + 4]\<close> is \<open>take 4 (drop offset h)\<close>.
\<close>

definition generate_totp :: "string \<Rightarrow> int \<Rightarrow> int \<Rightarrow> exn + string" where
  "generate_totp secret_b32 period now =
     (case b32decode secret_b32 of
        Inl e \<Rightarrow> Inl e
      | Inr key \<Rightarrow>
          if period = 0 then Inl ZeroDivisionError
          else
            (case struct_pack_Q (now div period) of
               Inl e \<Rightarrow> Inl e
             | Inr msg \<Rightarrow>
                 let h = hmac_sha1 key msg in
                 if h = [] then Inl IndexError
                 else
                   let offset = last h AND 0x0F in
                   (case struct_unpack_I (take 4 (drop (nat offset) h)) of
                      Inl e \<Rightarrow> Inl e
                    | Inr v \<Rightarrow> Inr (zfill 6 (str_int ((v AND 0x7FFFFFFF) mod 1000000))))))"

section \<open>The world outside the script\<close>

text \<open>
  A run is determined by what the outside answers. The backend is a script of answers,
  the \<open>n\<close>-th answer being given to the \<open>n\<close>-th API call of the run; \<open>docker ps\<close> prints
  some text or fails; the container answers the liveness probe with a status or not at
  all; the clock is read once, by \<open>generate_totp\<close>.
\<close>

datatype api_outcome =
    Api_json json
  | Api_http_error nat string
  | Api_failure

datatype docker_outcome =
    Docker_output string
  | Docker_failure

datatype wire =
    Status nat
  | No_response

record world =
  clock :: int
  backend :: "nat \<Rightarrow> api_outcome"
  docker :: docker_outcome
  probe :: "string \<Rightarrow> wire"

text \<open>
  What \<open>urllib.request.urlopen\<close> makes of the final answer of a server: it returns a
  response for a status from 200 to 299 and raises \<open>HTTPError\<close> for any other status;
  without an answer it raises another exception.
\<close>

datatype urlopen_outcome =
    Response nat
  | Raises_HTTPError nat
  | Raises_other

definition urlopen :: "wire \<Rightarrow> urlopen_outcome" where
  "urlopen r =
     (case r of
        Status code \<Rightarrow>
          if 200 \<le> code \<and> code < 300 then Response code else Raises_HTTPError code
      | No_response \<Rightarrow> Raises_other)"

text \<open>
  What a run does: the lines it prints, with the values it formats into them, its
  sleeps, its API requests (base URL, endpoint and bearer token), the \<open>docker ps\<close>
  query and the liveness probe.
\<close>

datatype endpoint =
    Auth_login
  | Auth_mfa_verify string
  | Admin_tenants string
  | Admin_tenant json

datatype line =
    L_http_error nat string
  | L_authenticating
  | L_authenticated json
  | L_creating string
  | L_created json
  | L_created_status json
  | L_polling
  | L_progress nat json json json
  | L_status nat json
  | L_succeeded
  | L_provisioning_failed json
  | L_timeout int
  | L_verifying
  | L_no_endpoint
  | L_container_url json
  | L_docker string
  | L_docker_not_found
  | L_docker_error exn
  | L_probe_ok nat
  | L_probe_expected nat
  | L_probe_unexpected nat
  | L_not_responding exn
  | L_health
  | L_health_status json
  | L_health_ok
  | L_health_warning json
  | L_banner string string
  | L_failed_provisioning
  | L_failed_container
  | L_health_nonfatal
  | L_all_passed json
  | L_passed_url json
  | L_fatal exn

datatype event =
    Print line
  | Sleep nat
  | Api_request string endpoint json
  | Docker_ps
  | Http_get string

record state =
  calls :: nat
  trace :: "event list"

definition emit :: "event \<Rightarrow> state \<Rightarrow> state" where
  "emit e s = s\<lparr>trace := trace s @ [e]\<rparr>"

definition print :: "line \<Rightarrow> state \<Rightarrow> state" where
  "print l s = emit (Print l) s"

section \<open>The script\<close>

definition MFA_SECRET_B32 :: string where
  "MFA_SECRET_B32 = ''JBSWY3DPEHPK3PXP''"

definition api_call ::
  "world \<Rightarrow> string \<Rightarrow> endpoint \<Rightarrow> json \<Rightarrow> state \<Rightarrow> (exn + json) \<times> state" where
  "api_call w url ep token s =
     (case backend w (calls s) of
        Api_json j \<Rightarrow>
          (Inr j, emit (Api_request url ep token) (s\<lparr>calls := calls s + 1\<rparr>))
      | Api_http_error code body \<Rightarrow>
          (Inl (HTTPError code),
           print (L_http_error code (take 300 body))
             (emit (Api_request url ep token) (s\<lparr>calls := calls s + 1\<rparr>)))
      | Api_failure \<Rightarrow>
          (Inl URLError, emit (Api_request url ep token) (s\<lparr>calls := calls s + 1\<rparr>)))"

definition authenticate :: "world \<Rightarrow> string \<Rightarrow> state \<Rightarrow> (exn + json) \<times> state" where
  "authenticate w url s =
     (case api_call w url Auth_login JNull (print L_authenticating s) of
        (Inl e, s1) \<Rightarrow> (Inl e, s1)
      | (Inr _, s1) \<Rightarrow>
          (case generate_totp MFA_SECRET_B32 30 (clock w) of
             Inl e \<Rightarrow> (Inl e, s1)
           | Inr totp \<Rightarrow>
               (case api_call w url (Auth_mfa_verify totp) JNull s1 of
                  (Inl e, s2) \<Rightarrow> (Inl e, s2)
                | (Inr result, s2) \<Rightarrow>
                    (case getitem result ''accessToken'' of
                       Inl e \<Rightarrow> (Inl e, s2)
                     | Inr token \<Rightarrow>
                         (case slice_to 20 token of
                            Inl e \<Rightarrow> (Inl e, s2)
                          | Inr shown \<Rightarrow> (Inr token, print (L_authenticated shown) s2))))))"

definition create_tenant ::
  "world \<Rightarrow> string \<Rightarrow> json \<Rightarrow> string \<Rightarrow> state \<Rightarrow> (exn + json) \<times> state" where
  "create_tenant w url token name s =
     (case api_call w url (Admin_tenants name) token (print (L_creating name) s) of
        (Inl e, s1) \<Rightarrow> (Inl e, s1)
      | (Inr result, s1) \<Rightarrow>
          (case getitem result ''id'' of
             Inl e \<Rightarrow> (Inl e, s1)
           | Inr tid \<Rightarrow>
               (case as_dict result of
                  Inl e \<Rightarrow> (Inl e, print (L_created tid) s1)
                | Inr kvs \<Rightarrow>
                    (Inr tid,
                     print (L_created_status (get kvs ''status'' (JStr ''?'')))
                       (print (L_created tid) s1)))))"

text \<open>The line an iteration of the poller prints before it looks for a terminal status.\<close>

definition progress_line :: "nat \<Rightarrow> (string \<times> json) list \<Rightarrow> line" where
  "progress_line i t =
     (if get t ''status'' (JStr ''?'') = JStr ''provisioning''
      then L_progress ((i + 1) * 10)
             (get t ''provisioningStep'' (JStr ''?''))
             (get t ''provisioningProgress'' (JInt 0))
             (get t ''provisioningMessage'' (JStr []))
      else L_status ((i + 1) * 10) (get t ''status'' (JStr ''?'')))"

text \<open>
  The \<open>for\<close> loop of \<open>poll_provisioning\<close> with the code after it: \<open>n\<close> iterations are
  left, \<open>i\<close> is the loop variable and \<open>t\<close> the local variable \<open>t\<close>, \<open>None\<close> while nothing
  has been assigned to it.
\<close>

fun poll_loop ::
  "world \<Rightarrow> string \<Rightarrow> json \<Rightarrow> json \<Rightarrow> int \<Rightarrow> nat \<Rightarrow> nat \<Rightarrow> json option \<Rightarrow> state
     \<Rightarrow> (exn + json) \<times> state" where
  "poll_loop w url token tenant_id timeout_secs 0 i t s =
     (case t of
        None \<Rightarrow> (Inl UnboundLocalError, print (L_timeout timeout_secs) s)
      | Some t' \<Rightarrow> (Inr t', print (L_timeout timeout_secs) s))"
| "poll_loop w url token tenant_id timeout_secs (Suc n) i t s =
     (case api_call w url (Admin_tenant tenant_id) token (emit (Sleep 10) s) of
        (Inl e, s1) \<Rightarrow> (Inl e, s1)
      | (Inr t', s1) \<Rightarrow>
          (case as_dict t' of
             Inl e \<Rightarrow> (Inl e, s1)
           | Inr kvs \<Rightarrow>
               if get kvs ''status'' (JStr ''?'') = JStr ''active''
               then (Inr t', print L_succeeded (print (progress_line i kvs) s1))
               else if get kvs ''status'' (JStr ''?'') = JStr ''failed''
               then (Inr t',
                     print (L_provisioning_failed
                              (get kvs ''provisioningFailedReason'' (JStr ''unknown'')))
                       (print (progress_line i kvs) s1))
               else poll_loop w url token tenant_id timeout_secs n (i + 1) (Some t')
                      (print (progress_line i kvs) s1)))"

text \<open>\<open>range(iterations)\<close> is empty when \<open>timeout_secs // 10\<close> is zero or negative.\<close>

definition poll_provisioning ::
  "world \<Rightarrow> string \<Rightarrow> json \<Rightarrow> json \<Rightarrow> int \<Rightarrow> state \<Rightarrow> (exn + json) \<times> state" where
  "poll_provisioning w url token tenant_id timeout_secs s =
     poll_loop w url token tenant_id timeout_secs (nat (timeout_secs div 10)) 0 None
       (print L_polling s)"

text \<open>
  The first \<open>try\<close> block of \<open>verify_container\<close>. Its \<open>except Exception\<close> catches whatever
  the subprocess, the lookup \<open>tenant["id"][:8]\<close> or the substring test raises.
\<close>

definition docker_check :: "world \<Rightarrow> (string \<times> json) list \<Rightarrow> state \<Rightarrow> state" where
  "docker_check w tenant s =
     (case docker w of
        Docker_failure \<Rightarrow> print (L_docker_error SubprocessError) (emit Docker_ps s)
      | Docker_output output \<Rightarrow>
          (case getitem (JObj tenant) ''id'' of
             Inl e \<Rightarrow> print (L_docker_error e) (emit Docker_ps s)
           | Inr tid \<Rightarrow>
               (case slice_to 8 tid of
                  Inl e \<Rightarrow> print (L_docker_error e) (emit Docker_ps s)
                | Inr (JStr tenant_id_prefix) \<Rightarrow>
                    (case find (contains tenant_id_prefix) (split CHR 0x0A (strip output)) of
                       Some l \<Rightarrow> print (L_docker l) (emit Docker_ps s)
                     | None \<Rightarrow> print L_docker_not_found (emit Docker_ps s))
                | Inr _ \<Rightarrow> print (L_docker_error TypeError) (emit Docker_ps s))))"

text \<open>
  The second \<open>try\<close> block. \<open>container_url + "/"\<close> raises unless the endpoint is a
  string, and the outer \<open>except Exception\<close> turns that into a failed check too.
\<close>

definition http_check :: "world \<Rightarrow> json \<Rightarrow> state \<Rightarrow> bool \<times> state" where
  "http_check w container_url s =
     (case container_url of
        JStr u \<Rightarrow>
          (case urlopen (probe w (u @ ''/'')) of
             Response status \<Rightarrow>
               (True, print (L_probe_ok status) (emit (Http_get (u @ ''/'')) s))
           | Raises_HTTPError code \<Rightarrow>
               if code = 404 \<or> code = 426
               then (True, print (L_probe_expected code) (emit (Http_get (u @ ''/'')) s))
               else (False, print (L_probe_unexpected code) (emit (Http_get (u @ ''/'')) s))
           | Raises_other \<Rightarrow>
               (False, print (L_not_responding URLError) (emit (Http_get (u @ ''/'')) s)))
      | _ \<Rightarrow> (False, print (L_not_responding TypeError) s))"

definition verify_container :: "world \<Rightarrow> json \<Rightarrow> state \<Rightarrow> (exn + bool) \<times> state" where
  "verify_container w tenant s =
     (case as_dict tenant of
        Inl e \<Rightarrow> (Inl e, print L_verifying s)
      | Inr kvs \<Rightarrow>
          (case as_dict (get kvs ''config'' (JObj [])) of
             Inl e \<Rightarrow> (Inl e, print L_verifying s)
           | Inr config \<Rightarrow>
               if \<not> truthy (get config ''containerEndpoint'' (JStr []))
               then (Inr False, print L_no_endpoint (print L_verifying s))
               else
                 (case http_check w (get config ''containerEndpoint'' (JStr []))
                         (docker_check w kvs
                            (print (L_container_url (get config ''containerEndpoint'' (JStr [])))
                               (print L_verifying s))) of
                    (ok, s1) \<Rightarrow> (Inr ok, s1))))"

text \<open>The value of \<open>h_status\<close> in \<open>verify_health_monitor\<close>.\<close>

definition health_status :: "(string \<times> json) list \<Rightarrow> json" where
  "health_status t =
     (case get t ''containerHealth'' (JObj []) of
        JObj health \<Rightarrow> get health ''status'' (JStr ''?'')
      | _ \<Rightarrow> JStr ''?'')"

definition verify_health_monitor ::
  "world \<Rightarrow> string \<Rightarrow> json \<Rightarrow> json \<Rightarrow> state \<Rightarrow> (exn + bool) \<times> state" where
  "verify_health_monitor w url token tenant_id s =
     (case api_call w url (Admin_tenant tenant_id) token (emit (Sleep 35) (print L_health s)) of
        (Inl e, s1) \<Rightarrow> (Inl e, s1)
      | (Inr t, s1) \<Rightarrow>
          (case as_dict t of
             Inl e \<Rightarrow> (Inl e, s1)
           | Inr kvs \<Rightarrow>
               if health_status kvs = JStr ''healthy''
               then (Inr True, print L_health_ok (print (L_health_status (health_status kvs)) s1))
               else (Inr False,
                     print (L_health_warning (health_status kvs))
                       (print (L_health_status (health_status kvs)) s1))))"

record args =
  base_url :: string
  tenant_name :: string
  skip_health_wait :: bool

text \<open>The health-monitor stage of \<open>main\<close>, skipped with \<open>--skip-health-wait\<close>.\<close>

definition health_stage ::
  "world \<Rightarrow> args \<Rightarrow> json \<Rightarrow> json \<Rightarrow> state \<Rightarrow> (exn + unit) \<times> state" where
  "health_stage w a token tenant_id s =
     (if skip_health_wait a then (Inr (), s)
      else
        (case verify_health_monitor w (base_url a) token tenant_id s of
           (Inl e, s1) \<Rightarrow> (Inl e, s1)
         | (Inr health_ok, s1) \<Rightarrow>
             if \<not> health_ok then (Inr (), print L_health_nonfatal s1) else (Inr (), s1)))"

text \<open>The closing report of \<open>main\<close>; falling off the end of \<open>main\<close> is exit code 0.\<close>

definition report_success ::
  "json \<Rightarrow> (string \<times> json) list \<Rightarrow> state \<Rightarrow> (exn + nat) \<times> state" where
  "report_success tenant_id tenant s =
     (case as_dict (get tenant ''config'' (JObj [])) of
        Inl e \<Rightarrow> (Inl e, print (L_all_passed tenant_id) s)
      | Inr config \<Rightarrow>
          (Inr 0,
           print (L_passed_url (get config ''containerEndpoint'' (JStr ''?'')))
             (print (L_all_passed tenant_id) s)))"

text \<open>
  The body of the \<open>try\<close> in \<open>main\<close>. \<open>Inr code\<close> is the exit code: \<open>sys.exit(1)\<close> raises
  \<open>SystemExit\<close>, which \<open>except Exception\<close> does not catch.
\<close>

definition main_try :: "world \<Rightarrow> args \<Rightarrow> state \<Rightarrow> (exn + nat) \<times> state" where
  "main_try w a s =
     (case authenticate w (base_url a) s of
        (Inl e, s1) \<Rightarrow> (Inl e, s1)
      | (Inr token, s1) \<Rightarrow>
          (case create_tenant w (base_url a) token (tenant_name a) s1 of
             (Inl e, s2) \<Rightarrow> (Inl e, s2)
           | (Inr tenant_id, s2) \<Rightarrow>
               (case poll_provisioning w (base_url a) token tenant_id 240 s2 of
                  (Inl e, s3) \<Rightarrow> (Inl e, s3)
                | (Inr tenant, s3) \<Rightarrow>
                    (case as_dict tenant of
                       Inl e \<Rightarrow> (Inl e, s3)
                     | Inr kvs \<Rightarrow>
                         if get kvs ''status'' JNull \<noteq> JStr ''active''
                         then (Inr 1, print L_failed_provisioning s3)
                         else
                           (case verify_container w tenant s3 of
                              (Inl e, s4) \<Rightarrow> (Inl e, s4)
                            | (Inr container_ok, s4) \<Rightarrow>
                                if \<not> container_ok then (Inr 1, print L_failed_container s4)
                                else
                                  (case health_stage w a token tenant_id s4 of
                                     (Inl e, s5) \<Rightarrow> (Inl e, s5)
                                   | (Inr _, s5) \<Rightarrow> report_success tenant_id kvs s5))))))"

text \<open>The state in which the \<open>try\<close> of \<open>main\<close> starts: the banner has been printed.\<close>

definition start :: "args \<Rightarrow> state" where
  "start a = print (L_banner (base_url a) (tenant_name a)) \<lparr>calls = 0, trace = []\<rparr>"

text \<open>\<open>main\<close> returns the exit code of the process and what the run did.\<close>

definition main :: "world \<Rightarrow> args \<Rightarrow> nat \<times> state" where
  "main w a =
     (case main_try w a (start a) of
        (Inl e, s) \<Rightarrow> (1, print (L_fatal e) s)
      | (Inr code, s) \<Rightarrow> (code, s))"

section \<open>Notions used to state the properties\<close>

text \<open>A terminal status: the poller returns as soon as it sees one.\<close>

definition terminal :: "(string \<times> json) list \<Rightarrow> bool" where
  "terminal t =
     (get t ''status'' (JStr ''?'') = JStr ''active'' \<or>
      get t ''status'' (JStr ''?'') = JStr ''failed'')"

text \<open>What polling the records \<open>ts\<close> one after the other does, from loop index \<open>i\<close> on.\<close>

fun poll_events ::
  "string \<Rightarrow> json \<Rightarrow> json \<Rightarrow> nat \<Rightarrow> (string \<times> json) list list \<Rightarrow> event list" where
  "poll_events url token tenant_id i [] = []"
| "poll_events url token tenant_id i (t # ts) =
     [Sleep 10, Api_request url (Admin_tenant tenant_id) token, Print (progress_line i t)] @
     poll_events url token tenant_id (i + 1) ts"

fun is_request :: "event \<Rightarrow> bool" where
  "is_request (Api_request url ep token) = True"
| "is_request _ = False"

text \<open>The number of API requests a run has made so far.\<close>

definition fetches :: "state \<Rightarrow> nat" where
  "fetches s = length (filter is_request (trace s))"

text \<open>A scripted backend: the answers \<open>rs\<close> in turn, then no answer.\<close>

definition script :: "api_outcome list \<Rightarrow> nat \<Rightarrow> api_outcome" where
  "script rs n = (if n < length rs then rs ! n else Api_failure)"

text \<open>
  A tenant record without a container endpoint: no \<open>config\<close>, a \<open>config\<close> without
  \<open>containerEndpoint\<close>, or an empty \<open>containerEndpoint\<close>.
\<close>

definition lacks_endpoint :: "(string \<times> json) list \<Rightarrow> bool" where
  "lacks_endpoint t =
     (case map_of t ''config'' of
        None \<Rightarrow> True
      | Some (JObj config) \<Rightarrow>
          (case map_of config ''containerEndpoint'' of
             None \<Rightarrow> True
           | Some v \<Rightarrow> v = JStr [])
      | Some _ \<Rightarrow> False)"

subsection \<open>The algorithm of RFC 4226 and RFC 6238 in the words of the specification\<close>

text \<open>The counter as an 8-byte big-endian integer.\<close>

definition spec_counter_bytes :: "int \<Rightarrow> byte list" where
  "spec_counter_bytes c = map (\<lambda>i. c div 256 ^ i mod 256) [7, 6, 5, 4, 3, 2, 1, 0]"

text \<open>
  Dynamic truncation: the low nibble of the last digest byte selects a window of four
  bytes, read big-endian, and bit 31 of it is cleared.
\<close>

definition spec_truncate :: "byte list \<Rightarrow> int" where
  "spec_truncate h =
     (let off = nat (last h mod 16)
      in unset_bit 31
           (h ! off * 2 ^ 24 + h ! (off + 1) * 2 ^ 16 + h ! (off + 2) * 2 ^ 8 + h ! (off + 3)))"

text \<open>The six decimal digits of a number, leading zeros included.\<close>

definition spec_six_digits :: "int \<Rightarrow> string" where
  "spec_six_digits n = map (\<lambda>i. digit_char (nat (n div 10 ^ i mod 10))) [5, 4, 3, 2, 1, 0]"

definition totp_spec :: "byte list \<Rightarrow> int \<Rightarrow> int \<Rightarrow> string" where
  "totp_spec key period now =
     spec_six_digits
       (spec_truncate (hmac_sha1 key (spec_counter_bytes (now div period))) mod 1000000)"

text \<open>A number written with at least \<open>k\<close> digits, zeros in front.\<close>

definition pad :: "nat \<Rightarrow> nat \<Rightarrow> string" where
  "pad k n = replicate (k - length (digits n)) CHR ''0'' @ digits n"

subsection \<open>Scripted backends\<close>

text \<open>From its call number \<open>c\<close> on, the backend answers with the records \<open>ts\<close> in turn.\<close>

definition answers :: "world \<Rightarrow> nat \<Rightarrow> (string \<times> json) list list \<Rightarrow> bool" where
  "answers w c ts = (\<forall>k < length ts. backend w (c + k) = Api_json (JObj (ts ! k)))"

text \<open>A tenant record in a given status, with a container endpoint.\<close>

definition tenant_record :: "string \<Rightarrow> (string \<times> json) list" where
  "tenant_record st =
     [(''id'', JStr ''0a1b2c3d-4e5f''), (''status'', JStr st),
      (''config'', JObj [(''containerEndpoint'', JStr ''http://localhost:19000'')])]"

text \<open>A backend that stays in \<open>provisioning\<close> for ever, and nothing else that answers.\<close>

definition stuck_world :: world where
  "stuck_world =
     \<lparr>clock = 1788211349,
      backend = (\<lambda>n. Api_json (JObj (tenant_record ''provisioning''))),
      docker = Docker_failure,
      probe = (\<lambda>u. No_response)\<rparr>"

definition idle :: state where
  "idle = \<lparr>calls = 0, trace = []\<rparr>"

text \<open>A world whose backend gives the answers \<open>rs\<close> in turn and then none.\<close>

definition scripted_world :: "api_outcome list \<Rightarrow> world" where
  "scripted_world rs =
     \<lparr>clock = 1788211349, backend = script rs, docker = Docker_failure,
      probe = (\<lambda>u. No_response)\<rparr>"

text \<open>A world in which only the container answers, with \<open>r\<close>, and docker with \<open>d\<close>.\<close>

definition container_world :: "docker_outcome \<Rightarrow> wire \<Rightarrow> world" where
  "container_world d r =
     \<lparr>clock = 1788211349, backend = script [], docker = d, probe = (\<lambda>u. r)\<rparr>"

text \<open>The lines of the container-runtime inspection, and those of them that are warnings.\<close>

fun docker_line :: "event \<Rightarrow> bool" where
  "docker_line (Print (L_docker l)) = True"
| "docker_line (Print L_docker_not_found) = True"
| "docker_line (Print (L_docker_error e)) = True"
| "docker_line _ = False"

fun docker_warning :: "line \<Rightarrow> bool" where
  "docker_warning L_docker_not_found = True"
| "docker_warning (L_docker_error e) = True"
| "docker_warning _ = False"

text \<open>
  The lines that the body of \<open>main\<close> prints itself: the banner, the two \<open>FAILED\<close> lines,
  the warning about the health monitor, the closing report and the fatal error. Every
  other line is printed by one of the functions that \<open>main\<close> calls. What the
  orchestrator reports of a run is its exit code and these lines, in order.
\<close>

fun printed_by_main :: "event \<Rightarrow> bool" where
  "printed_by_main (Print (L_banner url name)) = True"
| "printed_by_main (Print L_failed_provisioning) = True"
| "printed_by_main (Print L_failed_container) = True"
| "printed_by_main (Print L_health_nonfatal) = True"
| "printed_by_main (Print (L_all_passed tid)) = True"
| "printed_by_main (Print (L_passed_url u)) = True"
| "printed_by_main (Print (L_fatal e)) = True"
| "printed_by_main _ = False"

definition main_lines :: "state \<Rightarrow> event list" where
  "main_lines s = filter printed_by_main (trace s)"

text \<open>
  A world for whole runs: the backend answers \<open>rs\<close> in turn, the container answers the
  probe with \<open>r\<close>, docker is not available.
\<close>

definition run_world :: "api_outcome list \<Rightarrow> wire \<Rightarrow> world" where
  "run_world rs r =
     \<lparr>clock = 1788211349, backend = script rs, docker = Docker_failure, probe = (\<lambda>u. r)\<rparr>"

text \<open>The answers to the login, to the MFA verification and to the tenant creation.\<close>

definition setup_answers :: "api_outcome list" where
  "setup_answers =
     [Api_json (JObj []),
      Api_json (JObj [(''accessToken'', JStr ''token'')]),
      Api_json (JObj [(''id'', JStr ''0a1b2c3d-4e5f''), (''status'', JStr ''provisioning'')])]"

definition default_args :: args where
  "default_args =
     \<lparr>base_url = ''http://localhost:3000'', tenant_name = ''E2E Test 1'',
      skip_health_wait = False\<rparr>"

section \<open>Rules for evaluating the library functions\<close>

lemma to_bytes_numeral:
  "to_bytes (numeral k) v = to_bytes (pred_numeral k) (drop_bit 8 v) @ [v AND 0xFF]"
  by (simp add: numeral_eq_Suc)

lemma schedule_numeral:
  "schedule (numeral k) r =
     schedule (pred_numeral k) (rotl 1 (r ! 2 XOR r ! 7 XOR r ! 13 XOR r ! 15) # r)"
  by (simp add: numeral_eq_Suc)

lemma replicate_numeral:
  "replicate (numeral k) x = x # replicate (pred_numeral k) x"
  by (simp add: numeral_eq_Suc)

lemmas sha1_eval =
  sha1_def sha1_pad_def compress_def rotl_def sha1_f_def sha1_k_def
  to_bytes_numeral schedule_numeral replicate_numeral

lemmas hmac_eval = hmac_sha1_def hmac_key_def hmac_digest_def xor_bytes_def sha1_eval

lemmas b32_eval = b32decode_def b32alphabet_def upper_def rstrip_def Let_def to_bytes_numeral

lemmas totp_eval =
  generate_totp_def struct_pack_Q_def struct_unpack_I_def zfill_def str_int_def
  digits.simps digit_char_def Let_def to_bytes_numeral replicate_numeral

section \<open>The one-time password\<close>

lemma and_mask_int: "(v::int) AND (2 ^ n - 1) = v mod 2 ^ n"
  by (simp flip: mask_eq_exp_minus_1 take_bit_eq_mask add: take_bit_eq_mod)

lemma and_255: "(v::int) AND 255 = v mod 256"
  using and_mask_int [of v 8] by simp

lemma and_15: "(v::int) AND 15 = v mod 16"
  using and_mask_int [of v 4] by simp

lemma and_7FFFFFFF: "(v::int) AND 2147483647 = v mod 2147483648"
  using and_mask_int [of v 31] by simp

lemma length_to_bytes: "length (to_bytes n v) = n"
  by (induction n arbitrary: v) auto

lemma to_bytes_range: "b \<in> set (to_bytes n v) \<Longrightarrow> 0 \<le> b \<and> b < 256"
proof (induction n arbitrary: v)
  case 0
  then show ?case by simp
next
  case (Suc n)
  from Suc show ?case by (auto simp: and_255)
qed

lemma length_sha1: "length (sha1 m) = 20"
  by (cases "foldl compress (0x67452301, 0xEFCDAB89, 0x98BADCFE, 0x10325476, 0xC3D2E1F0) (chunks 64 (sha1_pad m))")
     (simp add: sha1_def length_to_bytes)

lemma sha1_range: "b \<in> set (sha1 m) \<Longrightarrow> 0 \<le> b \<and> b < 256"
  by (cases "foldl compress (0x67452301, 0xEFCDAB89, 0x98BADCFE, 0x10325476, 0xC3D2E1F0) (chunks 64 (sha1_pad m))")
     (auto simp: sha1_def dest: to_bytes_range)

lemma length_hmac_sha1: "length (hmac_sha1 key msg) = 20"
  by (simp add: hmac_sha1_def hmac_digest_def length_sha1)

lemma hmac_sha1_range: "b \<in> set (hmac_sha1 key msg) \<Longrightarrow> 0 \<le> b \<and> b < 256"
  by (simp add: hmac_sha1_def hmac_digest_def sha1_range)

lemma to_bytes_8: "to_bytes 8 c = spec_counter_bytes c"
  apply (simp add: to_bytes_numeral spec_counter_bytes_def and_255)
  apply (simp add: drop_bit_eq_div)
  done

lemma unset_bit_31:
  assumes "0 \<le> (v::int)" "v < 2 ^ 32"
  shows "unset_bit 31 v = v mod 2 ^ 31"
proof -
  have v: "take_bit 32 v = v"
    using assms by (simp add: take_bit_int_eq_self)
  have "unset_bit 31 (take_bit 32 v) = take_bit 31 v"
    by (rule bit_eqI) (auto simp: bit_unset_bit_iff bit_take_bit_iff)
  then show ?thesis
    unfolding v by (simp add: take_bit_eq_mod)
qed

lemma digits_chars: "set (digits n) \<subseteq> set ''0123456789''"
proof (induction n rule: digits.induct)
  case (1 n)
  show ?case
  proof (cases "n < 10")
    case True
    then have "digit_char n \<in> set ''0123456789''"
      unfolding digit_char_def by (intro nth_mem) simp
    with True show ?thesis by (subst digits.simps) simp
  next
    case False
    have "n mod 10 < 10" by simp
    then have "digit_char (n mod 10) \<in> set ''0123456789''"
      unfolding digit_char_def by (intro nth_mem) simp
    with False 1 show ?thesis by (subst digits.simps) simp
  qed
qed

lemma digits_nonempty: "digits n \<noteq> []"
  by (subst digits.simps) simp

lemma pad_Suc:
  assumes "0 < k"
  shows "pad (Suc k) n = pad k (n div 10) @ [digit_char (n mod 10)]"
proof (cases "n < 10")
  case True
  then have "digits n = [digit_char n]" "digits (n div 10) = [digit_char 0]"
    by (subst digits.simps, simp)+
  with True assms show ?thesis
    by (cases k) (simp_all add: pad_def digit_char_def replicate_append_same)
next
  case False
  then have "digits n = digits (n div 10) @ [digit_char (n mod 10)]"
    by (subst digits.simps) simp
  then show ?thesis
    by (simp add: pad_def)
qed

lemma pad_1: "n < 10 \<Longrightarrow> pad (Suc 0) n = [digit_char n]"
  by (subst pad_def, subst (1 2) digits.simps) simp

lemma pad_6:
  assumes "n < 1000000"
  shows "pad 6 n = map (\<lambda>i. digit_char (n div 10 ^ i mod 10)) [5, 4, 3, 2, 1, 0]"
proof -
  have d: "n div 10 div 10 = n div 100" "n div 100 div 10 = n div 1000"
    "n div 1000 div 10 = n div 10000" "n div 10000 div 10 = n div 100000"
    by (simp_all add: div_mult2_eq [symmetric])
  from assms have "n div 100000 < 10" by simp
  then have "pad (Suc 0) (n div 100000) = [digit_char (n div 100000 mod 10)]"
    by (simp add: pad_1)
  then have "pad 2 (n div 10000) = map (\<lambda>i. digit_char (n div 10 ^ i mod 10)) [5, 4]"
    using pad_Suc [of 1 "n div 10000"] by (simp add: d numeral_2_eq_2)
  then have "pad 3 (n div 1000) = map (\<lambda>i. digit_char (n div 10 ^ i mod 10)) [5, 4, 3]"
    using pad_Suc [of 2 "n div 1000"] by (simp add: d)
  then have "pad 4 (n div 100) = map (\<lambda>i. digit_char (n div 10 ^ i mod 10)) [5, 4, 3, 2]"
    using pad_Suc [of 3 "n div 100"] by (simp add: d)
  then have "pad 5 (n div 10) = map (\<lambda>i. digit_char (n div 10 ^ i mod 10)) [5, 4, 3, 2, 1]"
    using pad_Suc [of 4 "n div 10"] by (simp add: d)
  then show ?thesis
    using pad_Suc [of 5 n] by simp
qed

lemma zfill_digits: "zfill k (digits n) = pad k n"
proof (cases "digits n")
  case Nil
  with digits_nonempty show ?thesis by simp
next
  case (Cons c cs)
  then have "c \<in> set ''0123456789''"
    using digits_chars [of n] by auto
  then have "c \<noteq> CHR ''+''" "c \<noteq> CHR ''-''" by auto
  with Cons show ?thesis by (simp add: zfill_def pad_def)
qed



lemma take4_drop:
  assumes "n + 4 \<le> length h"
  shows "take 4 (drop n h) = [h ! n, h ! (n + 1), h ! (n + 2), h ! (n + 3)]"
proof -
  have "length (take 4 (drop n h)) = 4"
    using assms by simp
  moreover have "\<And>i. i < 4 \<Longrightarrow> take 4 (drop n h) ! i = h ! (n + i)"
    using assms by simp
  ultimately show ?thesis
    by (intro nth_equalityI) (auto simp: less_Suc_eq numeral_eq_Suc nth_Cons')
qed

lemma from_bytes_4:
  "from_bytes 0 [a, b, c, d] = a * 2 ^ 24 + b * 2 ^ 16 + c * 2 ^ 8 + d"
  by (simp add: push_bit_eq_mult)

lemma spec_six_digits_nat:
  assumes "0 \<le> n"
  shows "spec_six_digits n = map (\<lambda>i. digit_char (nat n div 10 ^ i mod 10)) [5, 4, 3, 2, 1, 0]"
  using assms by (simp add: spec_six_digits_def nat_div_distrib nat_mod_distrib nat_power_eq)

lemma zfill_code:
  assumes "0 \<le> n" "n < 1000000"
  shows "zfill 6 (str_int n) = spec_six_digits n"
proof -
  from assms have "nat n < 1000000" by simp
  then show ?thesis
    using assms by (simp add: str_int_def zfill_digits pad_6 spec_six_digits_nat)
qed

lemma generate_totp_refines:
  assumes key: "b32decode secret = Inr key"
    and period: "0 < period"
    and now: "0 \<le> now" "now div period < 2 ^ 64"
  shows "generate_totp secret period now = Inr (totp_spec key period now)"
proof -
  define c where "c = now div period"
  define h where "h = hmac_sha1 key (to_bytes 8 c)"
  define off where "off = nat (last h AND 15)"
  define v where "v = h ! off * 2 ^ 24 + h ! (off + 1) * 2 ^ 16 + h ! (off + 2) * 2 ^ 8 + h ! (off + 3)"
  have c: "0 \<le> c" "c < 2 ^ 64"
    using period now by (simp_all add: c_def pos_imp_zdiv_nonneg_iff)
  have len: "length h = 20"
    by (simp add: h_def length_hmac_sha1)
  then have ne: "h \<noteq> []"
    by auto
  have byte: "0 \<le> h ! i \<and> h ! i < 256" if "i < 20" for i
    using that len hmac_sha1_range [of "h ! i" key "to_bytes 8 c"] by (simp add: h_def)
  have "last h mod 16 < 16"
    by simp
  then have off: "off < 16"
    by (simp add: off_def and_15)
  then have window: "take 4 (drop off h) = [h ! off, h ! (off + 1), h ! (off + 2), h ! (off + 3)]"
    using len by (intro take4_drop) simp
  have unpack: "struct_unpack_I (take 4 (drop off h)) = Inr v"
    by (simp add: window struct_unpack_I_def from_bytes_4 v_def del: from_bytes.simps)
  have v: "0 \<le> v" "v < 2 ^ 32"
    using byte [of off] byte [of "off + 1"] byte [of "off + 2"] byte [of "off + 3"] off
    by (simp_all add: v_def)
  have clear: "v AND 2147483647 = unset_bit 31 v"
    using unset_bit_31 [OF v] by (simp add: and_7FFFFFFF)
  have trunc: "spec_truncate h = unset_bit 31 v"
    by (simp add: spec_truncate_def v_def off_def and_15 Let_def)
  have code: "0 \<le> unset_bit 31 v mod 1000000" "unset_bit 31 v mod 1000000 < 1000000"
    by simp_all
  have "generate_totp secret period now = Inr (zfill 6 (str_int (unset_bit 31 v mod 1000000)))"
    using period c ne unpack
    by (simp add: generate_totp_def key struct_pack_Q_def Let_def clear
        flip: c_def h_def off_def)
  also have "zfill 6 (str_int (unset_bit 31 v mod 1000000)) = totp_spec key period now"
  proof -
    have "h = hmac_sha1 key (spec_counter_bytes (now div period))"
      by (simp add: h_def c_def to_bytes_8)
    then show ?thesis
      using trunc by (simp add: zfill_code [OF code] totp_spec_def)
  qed
  finally show ?thesis .
qed


subsection \<open>Digests computed by the definitions\<close>

lemma sha1_abc:
  "sha1 [0x61, 0x62, 0x63] =
     [0xA9, 0x99, 0x3E, 0x36, 0x47, 0x06, 0x81, 0x6A, 0xBA, 0x3E,
      0x25, 0x71, 0x78, 0x50, 0xC2, 0x6C, 0x9C, 0xD0, 0xD8, 0x9D]"
  by (simp add: sha1_eval)

lemma hmac_key10_counter1:
  "hmac_sha1 [49, 50, 51, 52, 53, 54, 55, 56, 57, 48] [0, 0, 0, 0, 0, 0, 0, 1] =
     [193, 224, 40, 114, 60, 198, 43, 223, 80, 98, 22, 135, 185, 211, 128, 158, 159, 178, 193, 193]"
  by (simp add: hmac_eval)

lemma hmac_key20_counter1:
  "hmac_sha1 [49, 50, 51, 52, 53, 54, 55, 56, 57, 48, 49, 50, 51, 52, 53, 54, 55, 56, 57, 48]
     [0, 0, 0, 0, 0, 0, 0, 1] =
     [117, 164, 138, 25, 212, 203, 225, 0, 100, 78, 138, 193, 57, 126, 234, 116, 122, 45, 51, 171]"
  by (simp add: hmac_eval)

lemma hmac_mfa_counter_59607044:
  "hmac_sha1 [72, 101, 108, 108, 111, 33, 222, 173, 190, 239] [0, 0, 0, 0, 3, 141, 136, 4] =
     [66, 153, 8, 109, 135, 18, 221, 90, 138, 162, 55, 79, 139, 53, 129, 116, 43, 47, 128, 119]"
  by (simp add: hmac_eval)

lemma hmac_mfa_counter_59607045:
  "hmac_sha1 [72, 101, 108, 108, 111, 33, 222, 173, 190, 239] [0, 0, 0, 0, 3, 141, 136, 5] =
     [176, 149, 221, 190, 191, 29, 162, 133, 29, 156, 88, 45, 0, 235, 55, 117, 222, 245, 54, 59]"
  by (simp add: hmac_eval)

lemma hmac_mfa_counter_59607046:
  "hmac_sha1 [72, 101, 108, 108, 111, 33, 222, 173, 190, 239] [0, 0, 0, 0, 3, 141, 136, 6] =
     [137, 56, 176, 164, 46, 20, 121, 177, 199, 65, 202, 218, 40, 94, 148, 243, 117, 220, 206, 180]"
  by (simp add: hmac_eval)

lemma b32decode_key10: "b32decode ''GEZDGNBVGY3TQOJQ'' = Inr [49, 50, 51, 52, 53, 54, 55, 56, 57, 48]"
  by (simp add: b32_eval)

lemma b32decode_key20:
  "b32decode ''GEZDGNBVGY3TQOJQGEZDGNBVGY3TQOJQ'' =
     Inr [49, 50, 51, 52, 53, 54, 55, 56, 57, 48, 49, 50, 51, 52, 53, 54, 55, 56, 57, 48]"
  by (simp add: b32_eval)

lemma b32decode_mfa: "b32decode ''JBSWY3DPEHPK3PXP'' = Inr [72, 101, 108, 108, 111, 33, 222, 173, 190, 239]"
  by (simp add: b32_eval)


subsection \<open>Reference vectors\<close>

text \<open>
  \<open>GEZDGNBVGY3TQOJQ\<close> is the base32 text of the ten bytes \<open>1234567890\<close>; the secret of
  the test vectors of RFC 6238 is the twenty bytes \<open>12345678901234567890\<close>, whose base32
  text is \<open>GEZDGNBVGY3TQOJQGEZDGNBVGY3TQOJQ\<close>.
\<close>

lemma totp_key10: "generate_totp ''GEZDGNBVGY3TQOJQ'' 30 59 = Inr ''263420''"
  by (simp add: b32decode_key10 hmac_key10_counter1 totp_eval)

lemma totp_key20: "generate_totp ''GEZDGNBVGY3TQOJQGEZDGNBVGY3TQOJQ'' 30 59 = Inr ''287082''"
  by (simp add: b32decode_key20 hmac_key20_counter1 totp_eval)

lemma totp_before_boundary: "generate_totp ''JBSWY3DPEHPK3PXP'' 30 1788211349 = Inr ''034935''"
  by (simp add: b32decode_mfa hmac_mfa_counter_59607044 totp_eval)

lemma totp_after_boundary: "generate_totp ''JBSWY3DPEHPK3PXP'' 30 1788211350 = Inr ''034935''"
  by (simp add: b32decode_mfa hmac_mfa_counter_59607045 totp_eval)

lemma totp_next_window: "generate_totp ''JBSWY3DPEHPK3PXP'' 30 1788211380 = Inr ''093809''"
  by (simp add: b32decode_mfa hmac_mfa_counter_59607046 totp_eval)

subsection \<open>Claims about generate_totp\<close>

text \<open>
  C1, as stated, at its own example: for the secret \<open>GEZDGNBVGY3TQOJQ\<close> at Unix time 59
  with period 30, \<open>generate_totp\<close> returns \<open>263420\<close>, not the \<open>287082\<close> of the claim.
\<close>

theorem generate_totp_short_secret_counterexample:
  "generate_totp ''GEZDGNBVGY3TQOJQ'' 30 59 = Inr ''263420'' \<and>
   generate_totp ''GEZDGNBVGY3TQOJQ'' 30 59 \<noteq> Inr ''287082''"
  by (simp add: totp_key10)

text \<open>
  C1 as amended: for every secret that decodes, every positive period and every time
  from 0 on whose counter fits in 64 bits, \<open>generate_totp\<close> returns what the algorithm
  of the specification gives: HMAC-SHA1 of the 8-byte big-endian counter
  \<open>floor(time / period)\<close> keyed by the decoded secret, dynamic truncation, bit 31
  cleared, modulo 1,000,000, written with exactly six digits. For the secret of the
  RFC 6238 test vectors, \<open>GEZDGNBVGY3TQOJQGEZDGNBVGY3TQOJQ\<close>, at time 59 with period 30 it
  returns \<open>287082\<close>, the low six digits of the published 94287082.
\<close>

theorem generate_totp_rfc:
  assumes "b32decode secret = Inr key"
    and "0 < period"
    and "0 \<le> now"
    and "now div period < 2 ^ 64"
  shows "generate_totp secret period now = Inr (totp_spec key period now) \<and>
         length (totp_spec key period now) = 6 \<and>
         generate_totp ''GEZDGNBVGY3TQOJQGEZDGNBVGY3TQOJQ'' 30 59 = Inr ''287082''"
  using generate_totp_refines [OF assms]
  by (simp add: totp_key20 totp_spec_def spec_six_digits_def)

theorem generate_totp_rfc_witness:
  "b32decode ''GEZDGNBVGY3TQOJQGEZDGNBVGY3TQOJQ'' =
     Inr [49, 50, 51, 52, 53, 54, 55, 56, 57, 48, 49, 50, 51, 52, 53, 54, 55, 56, 57, 48] \<and>
   (0::int) < 30 \<and> (0::int) \<le> 59 \<and> (59::int) div 30 < 2 ^ 64 \<and>
   generate_totp ''GEZDGNBVGY3TQOJQGEZDGNBVGY3TQOJQ'' 30 59 =
     Inr (totp_spec [49, 50, 51, 52, 53, 54, 55, 56, 57, 48, 49, 50, 51, 52, 53, 54, 55, 56, 57, 48]
            30 59)"
proof -
  have "(0::int) < 30" "(0::int) \<le> 59" "(59::int) div 30 < 2 ^ 64"
    by simp_all
  from generate_totp_rfc [OF b32decode_key20 this] show ?thesis
    by (simp add: b32decode_key20)
qed

text \<open>
  C7, as stated, at a window boundary: with the secret of the script, the last second
  of one 30-second window and the first second of the next give the same code.
\<close>

theorem generate_totp_boundary_counterexample:
  "(1788211349::int) div 30 \<noteq> 1788211350 div 30 \<and>
   generate_totp MFA_SECRET_B32 30 1788211349 = generate_totp MFA_SECRET_B32 30 1788211350"
  by (simp add: MFA_SECRET_B32_def totp_before_boundary totp_after_boundary)

text \<open>
  C7 as amended: two times with the same \<open>floor(t / period)\<close> give the same result of
  \<open>generate_totp\<close>, which for a secret that decodes, a positive period and a counter
  from 0 on that fits in 64 bits is a code of six characters, the one that the
  algorithm of the specification gives for that counter. The code changes at some
  window boundaries and not at each: with the secret of the script and period 30 it is
  \<open>034935\<close> from 1788211350 to 1788211379, in the window before as well, and \<open>093809\<close> at
  1788211380.
\<close>

theorem generate_totp_window:
  assumes "t1 div period = t2 div period"
  shows "generate_totp secret period t1 = generate_totp secret period t2 \<and>
         (\<forall>key. b32decode secret = Inr key \<longrightarrow> 0 < period \<longrightarrow> 0 \<le> t1 \<longrightarrow>
                t1 div period < 2 ^ 64 \<longrightarrow>
                generate_totp secret period t2 = Inr (totp_spec key period t1) \<and>
                length (totp_spec key period t1) = 6) \<and>
         generate_totp MFA_SECRET_B32 30 1788211349 = Inr ''034935'' \<and>
         generate_totp MFA_SECRET_B32 30 1788211350 = Inr ''034935'' \<and>
         generate_totp MFA_SECRET_B32 30 1788211379 = Inr ''034935'' \<and>
         generate_totp MFA_SECRET_B32 30 1788211380 = Inr ''093809'' \<and>
         generate_totp MFA_SECRET_B32 30 1788211379 \<noteq> generate_totp MFA_SECRET_B32 30 1788211380"
proof -
  have same: "generate_totp s p u = generate_totp s p v" if "u div p = v div p" for s p u v
    unfolding generate_totp_def that by (rule refl)
  have one: "generate_totp secret period t1 = generate_totp secret period t2"
    using assms by (rule same)
  have two: "generate_totp secret period t2 = Inr (totp_spec key period t1) \<and>
             length (totp_spec key period t1) = 6"
    if "b32decode secret = Inr key" "0 < period" "0 \<le> t1" "t1 div period < 2 ^ 64" for key
    using generate_totp_refines [OF that] one
    by (simp add: totp_spec_def spec_six_digits_def)
  have "generate_totp MFA_SECRET_B32 30 1788211379 = generate_totp MFA_SECRET_B32 30 1788211350"
    by (rule same) simp
  then have lastsec: "generate_totp MFA_SECRET_B32 30 1788211379 = Inr ''034935''"
    by (simp add: MFA_SECRET_B32_def totp_after_boundary)
  have nxt: "generate_totp MFA_SECRET_B32 30 1788211380 = Inr ''093809''"
    by (simp add: MFA_SECRET_B32_def totp_next_window)
  have before: "generate_totp MFA_SECRET_B32 30 1788211349 = Inr ''034935''"
    by (simp add: MFA_SECRET_B32_def totp_before_boundary)
  have after: "generate_totp MFA_SECRET_B32 30 1788211350 = Inr ''034935''"
    by (simp add: MFA_SECRET_B32_def totp_after_boundary)
  have change: "generate_totp MFA_SECRET_B32 30 1788211379 \<noteq>
                generate_totp MFA_SECRET_B32 30 1788211380"
    by (simp add: lastsec nxt)
  from one two before after lastsec nxt change show ?thesis
    by blast
qed

theorem generate_totp_window_witness:
  "(1788211350::int) div 30 = 1788211379 div 30 \<and>
   b32decode MFA_SECRET_B32 = Inr [72, 101, 108, 108, 111, 33, 222, 173, 190, 239] \<and>
   (0::int) < 30 \<and> (0::int) \<le> 1788211350 \<and> (1788211350::int) div 30 < 2 ^ 64 \<and>
   generate_totp MFA_SECRET_B32 30 1788211350 = generate_totp MFA_SECRET_B32 30 1788211379 \<and>
   generate_totp MFA_SECRET_B32 30 1788211379 =
     Inr (totp_spec [72, 101, 108, 108, 111, 33, 222, 173, 190, 239] 30 1788211350) \<and>
   generate_totp MFA_SECRET_B32 30 1788211379 \<noteq> generate_totp MFA_SECRET_B32 30 1788211380"
proof -
  have w: "(1788211350::int) div 30 = 1788211379 div 30"
    by simp
  have key: "b32decode MFA_SECRET_B32 = Inr [72, 101, 108, 108, 111, 33, 222, 173, 190, 239]"
    by (simp add: MFA_SECRET_B32_def b32decode_mfa)
  have range: "(0::int) < 30" "(0::int) \<le> 1788211350" "(1788211350::int) div 30 < 2 ^ 64"
    by simp_all
  note inst = generate_totp_window [OF w, of MFA_SECRET_B32]
  from inst have one:
    "generate_totp MFA_SECRET_B32 30 1788211350 = generate_totp MFA_SECRET_B32 30 1788211379"
    by (rule conjunct1)
  from inst [THEN conjunct2, THEN conjunct1, rule_format, OF key range] have two:
    "generate_totp MFA_SECRET_B32 30 1788211379 =
       Inr (totp_spec [72, 101, 108, 108, 111, 33, 222, 173, 190, 239] 30 1788211350)"
    by (rule conjunct1)
  from inst have three:
    "generate_totp MFA_SECRET_B32 30 1788211379 \<noteq> generate_totp MFA_SECRET_B32 30 1788211380"
    by (elim conjE)
  show ?thesis
    using w key range one two three by (intro conjI)
qed

section \<open>The poller\<close>

lemma poll_loop_run:
  assumes "\<And>k. k < length ts \<Longrightarrow> backend w (calls s + k) = Api_json (JObj (ts ! k))"
    and "\<And>t. t \<in> set ts \<Longrightarrow> \<not> terminal t"
  shows "poll_loop w url token tid timeout_secs (length ts + m) i t0 s =
         poll_loop w url token tid timeout_secs m (i + length ts)
           (if ts = [] then t0 else Some (JObj (last ts)))
           (s\<lparr>calls := calls s + length ts,
              trace := trace s @ poll_events url token tid i ts\<rparr>)"
  using assms
proof (induction ts arbitrary: s i t0)
  case Nil
  then show ?case by simp
next
  case (Cons t ts)
  let ?s1 = "s\<lparr>calls := calls s + 1,
                trace := trace s @ [Sleep 10, Api_request url (Admin_tenant tid) token,
                                   Print (progress_line i t)]\<rparr>"
  from Cons.prems(1) [of 0] have first: "backend w (calls s) = Api_json (JObj t)"
    by simp
  from Cons.prems(2) [of t] have nt: "\<not> terminal t"
    by simp
  have step: "poll_loop w url token tid timeout_secs (Suc (length ts + m)) i t0 s =
              poll_loop w url token tid timeout_secs (length ts + m) (i + 1) (Some (JObj t)) ?s1"
    using first nt
    by (simp add: api_call_def emit_def print_def terminal_def)
  have "poll_loop w url token tid timeout_secs (length ts + m) (i + 1) (Some (JObj t)) ?s1 =
        poll_loop w url token tid timeout_secs m (i + 1 + length ts)
          (if ts = [] then Some (JObj t) else Some (JObj (last ts)))
          (?s1\<lparr>calls := calls ?s1 + length ts,
               trace := trace ?s1 @ poll_events url token tid (i + 1) ts\<rparr>)"
  proof (rule Cons.IH)
    fix k assume "k < length ts"
    then show "backend w (calls ?s1 + k) = Api_json (JObj (ts ! k))"
      using Cons.prems(1) [of "Suc k"] by simp
  next
    fix t' assume "t' \<in> set ts"
    then show "\<not> terminal t'"
      using Cons.prems(2) by simp
  qed
  with step show ?case
    by (simp add: add.assoc)
qed

lemma requests_poll_events:
  "length (filter is_request (poll_events url token tid i ts)) = length ts"
  by (induction ts arbitrary: i) simp_all

lemma poll_events_prints:
  "Print l \<in> set (poll_events url token tid i ts) \<Longrightarrow> \<exists>k t. l = progress_line k t"
  by (induction ts arbitrary: i) auto

lemma progress_line_cases:
  "(\<exists>n a b c. progress_line k t = L_progress n a b c) \<or> (\<exists>n a. progress_line k t = L_status n a)"
  by (simp add: progress_line_def)


lemma tenant_record_status [simp]:
  "get (tenant_record st) ''status'' d = JStr st"
  by (simp add: tenant_record_def get_def)

lemma provisioning_not_terminal: "\<not> terminal (tenant_record ''provisioning'')"
  by (simp add: terminal_def)

subsection \<open>Claims about poll_provisioning\<close>

text \<open>
  C2, as stated, at \<open>timeout_secs = 5\<close>: every answer of the backend is a record in
  status \<open>provisioning\<close>, and \<open>poll_provisioning\<close> returns no record: it raises.
\<close>

theorem poll_provisioning_short_timeout_counterexample:
  "\<not> terminal (tenant_record ''provisioning'') \<and>
   backend stuck_world 0 = Api_json (JObj (tenant_record ''provisioning'')) \<and>
   fst (poll_provisioning stuck_world ''http://localhost:3000'' (JStr ''token'')
          (JStr ''0a1b2c3d-4e5f'') 5 idle) = Inl UnboundLocalError"
  by (simp add: provisioning_not_terminal stuck_world_def poll_provisioning_def)

text \<open>
  C2 as amended: for every \<open>timeout_secs\<close> of at least 10 and every backend that
  answers the \<open>floor(timeout_secs / 10)\<close> status fetches with records of a non-terminal
  status, \<open>poll_provisioning\<close> makes exactly that number of fetches, prints the timeout
  line last and returns the record of the last fetch.
\<close>

theorem poll_provisioning_timeout:
  assumes "10 \<le> timeout_secs"
    and "length ts = nat (timeout_secs div 10)"
    and "answers w (calls s) ts"
    and "\<forall>t \<in> set ts. \<not> terminal t"
  shows "poll_provisioning w url token tid timeout_secs s =
           (Inr (JObj (last ts)),
            s\<lparr>calls := calls s + nat (timeout_secs div 10),
               trace := trace s @ [Print L_polling] @ poll_events url token tid 0 ts @
                        [Print (L_timeout timeout_secs)]\<rparr>)
         \<and> fetches (snd (poll_provisioning w url token tid timeout_secs s)) =
             fetches s + nat (timeout_secs div 10)"
proof -
  from assms(1,2) have ne: "ts \<noteq> []"
    by auto
  have run: "poll_loop w url token tid timeout_secs (length ts + 0) 0 None (print L_polling s) =
        poll_loop w url token tid timeout_secs 0 (0 + length ts)
          (if ts = [] then None else Some (JObj (last ts)))
          ((print L_polling s)\<lparr>calls := calls (print L_polling s) + length ts,
             trace := trace (print L_polling s) @ poll_events url token tid 0 ts\<rparr>)"
    using assms(3,4) by (intro poll_loop_run) (simp_all add: answers_def print_def emit_def)
  then have res: "poll_provisioning w url token tid timeout_secs s =
           (Inr (JObj (last ts)),
            s\<lparr>calls := calls s + nat (timeout_secs div 10),
               trace := trace s @ [Print L_polling] @ poll_events url token tid 0 ts @
                        [Print (L_timeout timeout_secs)]\<rparr>)"
    using ne assms(2) by (simp add: poll_provisioning_def print_def emit_def)
  show ?thesis
    unfolding res using assms(2) by (simp add: fetches_def requests_poll_events)
qed

theorem poll_provisioning_timeout_witness:
  "fst (poll_provisioning stuck_world ''http://localhost:3000'' (JStr ''token'')
          (JStr ''0a1b2c3d-4e5f'') 30 idle) = Inr (JObj (tenant_record ''provisioning'')) \<and>
   fetches (snd (poll_provisioning stuck_world ''http://localhost:3000'' (JStr ''token'')
          (JStr ''0a1b2c3d-4e5f'') 30 idle)) = 3"
proof -
  let ?ts = "[tenant_record ''provisioning'', tenant_record ''provisioning'',
              tenant_record ''provisioning'']"
  have a: "(10::int) \<le> 30"
    by simp
  have b: "length ?ts = nat (30 div 10)"
    by simp
  have c: "answers stuck_world (calls idle) ?ts"
    by (simp add: answers_def stuck_world_def nth_Cons')
  have d: "\<forall>t \<in> set ?ts. \<not> terminal t"
    by (simp add: provisioning_not_terminal)
  from poll_provisioning_timeout [OF a b c d] show ?thesis
    by (simp add: fetches_def idle_def)
qed

text \<open>
  C9: called with \<open>timeout_secs\<close> below 10, \<open>poll_provisioning\<close> makes no fetch: it
  prints the timeout line and raises \<open>UnboundLocalError\<close>, the \<open>NameError\<close> of a local
  variable that was never bound.
\<close>

theorem poll_provisioning_unbound:
  assumes "timeout_secs < 10"
  shows "poll_provisioning w url token tid timeout_secs s =
           (Inl UnboundLocalError, print (L_timeout timeout_secs) (print L_polling s))"
proof -
  from assms have "nat (timeout_secs div 10) = 0"
    by simp
  then show ?thesis
    by (simp add: poll_provisioning_def)
qed

theorem poll_provisioning_unbound_witness:
  "(9::int) < 10 \<and>
   poll_provisioning stuck_world ''http://localhost:3000'' (JStr ''token'')
     (JStr ''0a1b2c3d-4e5f'') 9 idle =
     (Inl UnboundLocalError, print (L_timeout 9) (print L_polling idle))"
proof -
  have "(9::int) < 10"
    by simp
  from poll_provisioning_unbound [OF this] show ?thesis
    by simp
qed

lemma poll_events_snoc:
  "poll_events url token tid i (ts @ [t]) =
     poll_events url token tid i ts @
     [Sleep 10, Api_request url (Admin_tenant tid) token, Print (progress_line (i + length ts) t)]"
  by (induction ts arbitrary: i) simp_all

lemma answers_script:
  "answers (scripted_world (map (\<lambda>t. Api_json (JObj t)) ts)) 0 ts"
  by (simp add: answers_def scripted_world_def script_def)

text \<open>
  C3: when the backend answers with records of a non-terminal status and then, within
  the iteration budget, with a record whose status is \<open>active\<close> or \<open>failed\<close>,
  \<open>poll_provisioning\<close> returns that record at once: it has made one fetch per record
  up to and including the terminal one, and no fetch after it.
\<close>

theorem poll_provisioning_terminal:
  assumes "length ts < nat (timeout_secs div 10)"
    and "answers w (calls s) (ts @ [t])"
    and "\<forall>t' \<in> set ts. \<not> terminal t'"
    and "terminal t"
  shows "poll_provisioning w url token tid timeout_secs s =
           (Inr (JObj t),
            s\<lparr>calls := calls s + length ts + 1,
               trace := trace s @ [Print L_polling] @ poll_events url token tid 0 (ts @ [t]) @
                 [Print (if get t ''status'' (JStr ''?'') = JStr ''active'' then L_succeeded
                         else L_provisioning_failed
                                (get t ''provisioningFailedReason'' (JStr ''unknown'')))]\<rparr>)
         \<and> fetches (snd (poll_provisioning w url token tid timeout_secs s)) =
             fetches s + length ts + 1"
proof -
  from less_imp_Suc_add [OF assms(1)]
  obtain m where m: "nat (timeout_secs div 10) = length ts + Suc m"
    by auto
  let ?s0 = "print L_polling s"
  let ?s1 = "?s0\<lparr>calls := calls ?s0 + length ts,
                 trace := trace ?s0 @ poll_events url token tid 0 ts\<rparr>"
  have pre: "backend w (calls ?s0 + k) = Api_json (JObj (ts ! k))" if k: "k < length ts" for k
  proof -
    from k have "k < length (ts @ [t])"
      by simp
    with assms(2) have "backend w (calls s + k) = Api_json (JObj ((ts @ [t]) ! k))"
      unfolding answers_def by blast
    with k show ?thesis
      by (simp add: nth_append print_def emit_def)
  qed
  have run: "poll_loop w url token tid timeout_secs (length ts + Suc m) 0 None ?s0 =
        poll_loop w url token tid timeout_secs (Suc m) (0 + length ts)
          (if ts = [] then None else Some (JObj (last ts))) ?s1"
    using pre assms(3) by (intro poll_loop_run) simp_all
  have "backend w (calls s + length ts) = Api_json (JObj t)"
    using assms(2) by (simp add: answers_def nth_append)
  then have here: "backend w (calls ?s1) = Api_json (JObj t)"
    by (simp add: print_def emit_def)
  have res: "poll_provisioning w url token tid timeout_secs s =
           (Inr (JObj t),
            s\<lparr>calls := calls s + length ts + 1,
               trace := trace s @ [Print L_polling] @ poll_events url token tid 0 (ts @ [t]) @
                 [Print (if get t ''status'' (JStr ''?'') = JStr ''active'' then L_succeeded
                         else L_provisioning_failed
                                (get t ''provisioningFailedReason'' (JStr ''unknown'')))]\<rparr>)"
    unfolding poll_provisioning_def m run poll_events_snoc
    using here assms(4)
    by (auto simp: api_call_def emit_def print_def terminal_def)
  show ?thesis
    unfolding res by (simp add: fetches_def requests_poll_events)
qed

theorem poll_provisioning_terminal_witness:
  "fst (poll_provisioning
          (scripted_world [Api_json (JObj (tenant_record ''provisioning'')),
                           Api_json (JObj (tenant_record ''provisioning'')),
                           Api_json (JObj (tenant_record ''active''))])
          ''http://localhost:3000'' (JStr ''token'') (JStr ''0a1b2c3d-4e5f'') 240 idle) =
     Inr (JObj (tenant_record ''active'')) \<and>
   fetches (snd (poll_provisioning
          (scripted_world [Api_json (JObj (tenant_record ''provisioning'')),
                           Api_json (JObj (tenant_record ''provisioning'')),
                           Api_json (JObj (tenant_record ''active''))])
          ''http://localhost:3000'' (JStr ''token'') (JStr ''0a1b2c3d-4e5f'') 240 idle)) = 3 \<and>
   fst (poll_provisioning
          (scripted_world [Api_json (JObj (tenant_record ''provisioning'')),
                           Api_json (JObj (tenant_record ''failed''))])
          ''http://localhost:3000'' (JStr ''token'') (JStr ''0a1b2c3d-4e5f'') 240 idle) =
     Inr (JObj (tenant_record ''failed'')) \<and>
   fetches (snd (poll_provisioning
          (scripted_world [Api_json (JObj (tenant_record ''provisioning'')),
                           Api_json (JObj (tenant_record ''failed''))])
          ''http://localhost:3000'' (JStr ''token'') (JStr ''0a1b2c3d-4e5f'') 240 idle)) = 2"
proof -
  let ?p = "tenant_record ''provisioning''"
  let ?a = "tenant_record ''active''"
  let ?f = "tenant_record ''failed''"
  have budget: "length [?p, ?p] < nat (240 div 10)" "length [?p] < nat (240 div 10)"
    by simp_all
  have nt: "\<forall>t' \<in> set [?p, ?p]. \<not> terminal t'" "\<forall>t' \<in> set [?p]. \<not> terminal t'"
    by (simp_all add: provisioning_not_terminal)
  have fin: "terminal ?a" "terminal ?f"
    by (simp_all add: terminal_def)
  have a1: "answers (scripted_world [Api_json (JObj ?p), Api_json (JObj ?p), Api_json (JObj ?a)])
              (calls idle) ([?p, ?p] @ [?a])"
    using answers_script [of "[?p, ?p, ?a]"] by (simp add: idle_def)
  have a2: "answers (scripted_world [Api_json (JObj ?p), Api_json (JObj ?f)])
              (calls idle) ([?p] @ [?f])"
    using answers_script [of "[?p, ?f]"] by (simp add: idle_def)
  from poll_provisioning_terminal [OF budget(1) a1 nt(1) fin(1)]
       poll_provisioning_terminal [OF budget(2) a2 nt(2) fin(2)]
  show ?thesis
    by (simp add: fetches_def idle_def)
qed

section \<open>The container check\<close>

lemma docker_check_trace:
  "\<exists>l. docker_check w tenant s = s\<lparr>trace := trace s @ [Docker_ps, Print l]\<rparr> \<and>
       docker_line (Print l) \<and>
       (docker_warning l \<or>
        (\<exists>output p x. docker w = Docker_output output \<and> l = L_docker x \<and>
           find (contains p) (split CHR 0x0A (strip output)) = Some x))"
  by (auto simp: docker_check_def print_def emit_def
        split: docker_outcome.splits sum.splits json.splits option.splits)

lemma docker_check_calls [simp]: "calls (docker_check w tenant s) = calls s"
  using docker_check_trace [of w tenant s] by auto

lemma docker_check_filtered [simp]:
  "filter (\<lambda>e. \<not> docker_line e) (trace (docker_check w tenant s)) =
   filter (\<lambda>e. \<not> docker_line e) (trace s) @ [Docker_ps]"
  using docker_check_trace [of w tenant s] by auto

lemma http_check_docker [simp]:
  "http_check (w\<lparr>docker := d\<rparr>) cu s = http_check w cu s"
  by (cases cu) (simp_all add: http_check_def)

lemma http_check_fst:
  "fst (http_check w cu s) =
     (case cu of
        JStr u \<Rightarrow>
          (case urlopen (probe w (u @ ''/'')) of
             Response status \<Rightarrow> True
           | Raises_HTTPError code \<Rightarrow> code = 404 \<or> code = 426
           | Raises_other \<Rightarrow> False)
      | _ \<Rightarrow> False)"
  by (simp add: http_check_def split: json.splits urlopen_outcome.splits)

lemma http_check_calls [simp]: "calls (snd (http_check w cu s)) = calls s"
  by (simp add: http_check_def print_def emit_def split: json.splits urlopen_outcome.splits)

lemma http_check_trace:
  "trace (snd (http_check w cu s)) = trace s @ trace (snd (http_check w cu idle))"
  by (simp add: http_check_def print_def emit_def idle_def
        split: json.splits urlopen_outcome.splits)

lemma verify_container_docker:
  "fst (verify_container (w\<lparr>docker := d\<rparr>) tenant s) =
     fst (verify_container (w\<lparr>docker := d'\<rparr>) tenant s) \<and>
   calls (snd (verify_container (w\<lparr>docker := d\<rparr>) tenant s)) =
     calls (snd (verify_container (w\<lparr>docker := d'\<rparr>) tenant s)) \<and>
   filter (\<lambda>e. \<not> docker_line e) (trace (snd (verify_container (w\<lparr>docker := d\<rparr>) tenant s))) =
     filter (\<lambda>e. \<not> docker_line e) (trace (snd (verify_container (w\<lparr>docker := d'\<rparr>) tenant s)))"
proof -
  show ?thesis
  proof (cases "as_dict tenant")
    case (Inl e)
    then show ?thesis
      by (simp add: verify_container_def)
  next
    case kvs: (Inr kvs)
    show ?thesis
    proof (cases "as_dict (get kvs ''config'' (JObj []))")
      case (Inl e)
      with kvs show ?thesis
        by (simp add: verify_container_def)
    next
      case config: (Inr config)
      from kvs config show ?thesis
        by (simp add: verify_container_def case_prod_beta http_check_fst
              http_check_trace [of _ _ "docker_check w' kvs s'" for w' s'])
    qed
  qed
qed

subsection \<open>Claims about verify_container\<close>

text \<open>
  C5: with a tenant record whose \<open>config.containerEndpoint\<close> is a non-empty string,
  \<open>verify_container\<close> passes when the probe of that endpoint is answered with a status
  from 200 to 299, with 404 or with 426, and fails on every other status and when there
  is no answer at all.
\<close>

theorem verify_container_probe:
  assumes "get tenant ''config'' (JObj []) = JObj config"
    and "get config ''containerEndpoint'' (JStr []) = JStr u"
    and "u \<noteq> []"
  shows "fst (verify_container w (JObj tenant) s) =
           Inr (case probe w (u @ ''/'') of
                  Status code \<Rightarrow> (200 \<le> code \<and> code < 300) \<or> code = 404 \<or> code = 426
                | No_response \<Rightarrow> False)"
  using assms
  by (simp add: verify_container_def http_check_def urlopen_def split: wire.splits prod.splits)

theorem verify_container_probe_witness:
  "fst (verify_container (container_world Docker_failure (Status 200))
          (JObj (tenant_record ''active'')) idle) = Inr True \<and>
   fst (verify_container (container_world Docker_failure (Status 404))
          (JObj (tenant_record ''active'')) idle) = Inr True \<and>
   fst (verify_container (container_world Docker_failure (Status 426))
          (JObj (tenant_record ''active'')) idle) = Inr True \<and>
   fst (verify_container (container_world Docker_failure (Status 500))
          (JObj (tenant_record ''active'')) idle) = Inr False \<and>
   fst (verify_container (container_world Docker_failure No_response)
          (JObj (tenant_record ''active'')) idle) = Inr False"
proof -
  have a: "get (tenant_record ''active'') ''config'' (JObj []) =
             JObj [(''containerEndpoint'', JStr ''http://localhost:19000'')]"
    by (simp add: tenant_record_def get_def)
  have b: "get [(''containerEndpoint'', JStr ''http://localhost:19000'')] ''containerEndpoint''
             (JStr []) = JStr ''http://localhost:19000''"
    by (simp add: get_def)
  have c: "''http://localhost:19000'' \<noteq> []"
    by simp
  note p = verify_container_probe [OF a b c, where s = idle]
  from p [where w = "container_world Docker_failure (Status 200)"]
    p [where w = "container_world Docker_failure (Status 404)"]
    p [where w = "container_world Docker_failure (Status 426)"]
    p [where w = "container_world Docker_failure (Status 500)"]
    p [where w = "container_world Docker_failure No_response"]
  show ?thesis
    by (simp add: container_world_def)
qed

text \<open>
  C8: whatever \<open>docker ps\<close> does, the inspection of its output never raises and adds to
  the run the query and one line, a warning unless a matching entry was found; the
  result of \<open>verify_container\<close>, its API calls and everything it does besides that line
  are the same for any two outcomes of \<open>docker ps\<close>.
\<close>

theorem docker_check_best_effort:
  "(\<exists>l. docker_check w kvs s = s\<lparr>trace := trace s @ [Docker_ps, Print l]\<rparr> \<and>
        (docker_warning l \<or>
         (\<exists>output p x. docker w = Docker_output output \<and> l = L_docker x \<and>
            find (contains p) (split CHR 0x0A (strip output)) = Some x))) \<and>
   fst (verify_container (w\<lparr>docker := d\<rparr>) tenant s) = fst (verify_container w tenant s) \<and>
   calls (snd (verify_container (w\<lparr>docker := d\<rparr>) tenant s)) =
     calls (snd (verify_container w tenant s)) \<and>
   filter (\<lambda>e. \<not> docker_line e) (trace (snd (verify_container (w\<lparr>docker := d\<rparr>) tenant s))) =
     filter (\<lambda>e. \<not> docker_line e) (trace (snd (verify_container w tenant s)))"
proof -
  have 1: "\<exists>l. docker_check w kvs s = s\<lparr>trace := trace s @ [Docker_ps, Print l]\<rparr> \<and>
        (docker_warning l \<or>
         (\<exists>output p x. docker w = Docker_output output \<and> l = L_docker x \<and>
            find (contains p) (split CHR 0x0A (strip output)) = Some x))"
    using docker_check_trace [of w kvs s] by blast
  have "w\<lparr>docker := docker w\<rparr> = w"
    by simp
  with verify_container_docker [where w = w and d = d and d' = "docker w"] 1 show ?thesis
    by simp
qed

theorem docker_check_best_effort_witness:
  "fst (verify_container
          (container_world (Docker_output (''aegis-0a1b2c3d'' @ [CHR 0x09] @ ''Up 2 minutes''))
             (Status 426))
          (JObj (tenant_record ''active'')) idle) =
   fst (verify_container (container_world Docker_failure (Status 426))
          (JObj (tenant_record ''active'')) idle) \<and>
   fst (verify_container (container_world (Docker_output ''no such container'') (Status 426))
          (JObj (tenant_record ''active'')) idle) =
   fst (verify_container (container_world Docker_failure (Status 426))
          (JObj (tenant_record ''active'')) idle) \<and>
   docker_check (container_world Docker_failure (Status 426)) (tenant_record ''active'') idle =
     idle\<lparr>trace := [Docker_ps, Print (L_docker_error SubprocessError)]\<rparr> \<and>
   docker_check (container_world (Docker_output ''no such container'') (Status 426))
     (tenant_record ''active'') idle =
     idle\<lparr>trace := [Docker_ps, Print L_docker_not_found]\<rparr> \<and>
   docker_check
     (container_world (Docker_output (''aegis-0a1b2c3d'' @ [CHR 0x09] @ ''Up 2 minutes''))
        (Status 426))
     (tenant_record ''active'') idle =
     idle\<lparr>trace := [Docker_ps, Print (L_docker (''aegis-0a1b2c3d'' @ [CHR 0x09] @ ''Up 2 minutes''))]\<rparr>"
proof -
  have w: "container_world d r = (container_world Docker_failure r)\<lparr>docker := d\<rparr>" for d r
    by (simp add: container_world_def)
  have lines:
    "docker_check (container_world Docker_failure (Status 426)) (tenant_record ''active'') idle =
       idle\<lparr>trace := [Docker_ps, Print (L_docker_error SubprocessError)]\<rparr>"
    "docker_check (container_world (Docker_output ''no such container'') (Status 426))
       (tenant_record ''active'') idle =
       idle\<lparr>trace := [Docker_ps, Print L_docker_not_found]\<rparr>"
    "docker_check
       (container_world (Docker_output (''aegis-0a1b2c3d'' @ [CHR 0x09] @ ''Up 2 minutes''))
          (Status 426))
       (tenant_record ''active'') idle =
       idle\<lparr>trace := [Docker_ps, Print (L_docker (''aegis-0a1b2c3d'' @ [CHR 0x09] @ ''Up 2 minutes''))]\<rparr>"
    by (simp_all add: docker_check_def container_world_def tenant_record_def idle_def
          print_def emit_def strip_def isspace_def)
  from docker_check_best_effort
         [where w = "container_world Docker_failure (Status 426)"
            and d = "Docker_output (''aegis-0a1b2c3d'' @ [CHR 0x09] @ ''Up 2 minutes'')"
            and tenant = "JObj (tenant_record ''active'')" and s = idle]
       docker_check_best_effort
         [where w = "container_world Docker_failure (Status 426)"
            and d = "Docker_output ''no such container''"
            and tenant = "JObj (tenant_record ''active'')" and s = idle]
  show ?thesis
    unfolding lines by (simp flip: w)
qed

section \<open>The orchestrator\<close>


lemma lacks_endpoint_config:
  assumes "lacks_endpoint t"
  shows "\<exists>config. as_dict (get t ''config'' (JObj [])) = Inr config \<and>
                   \<not> truthy (get config ''containerEndpoint'' (JStr []))"
  using assms
  by (auto simp: lacks_endpoint_def get_def split: option.splits json.splits)

lemma verify_container_config:
  assumes "verify_container w (JObj t) s = (Inr ok, s')"
  shows "\<exists>config. as_dict (get t ''config'' (JObj [])) = Inr config"
  using assms by (auto simp: verify_container_def split: sum.splits)

subsection \<open>Lines printed by main\<close>

lemma main_lines_print:
  "main_lines (print l s) = main_lines s @ (if printed_by_main (Print l) then [Print l] else [])"
  by (simp add: main_lines_def print_def emit_def)

lemma main_lines_emit:
  "main_lines (emit e s) = main_lines s @ (if printed_by_main e then [e] else [])"
  by (simp add: main_lines_def emit_def)

lemma main_lines_calls [simp]: "main_lines (s\<lparr>calls := n\<rparr>) = main_lines s"
  by (simp add: main_lines_def)

lemma main_lines_api_call [simp]:
  "main_lines (snd (api_call w url ep token s)) = main_lines s"
  by (simp add: api_call_def main_lines_print main_lines_emit split: api_outcome.splits)



lemma main_lines_start [simp]:
  "main_lines (start a) = [Print (L_banner (base_url a) (tenant_name a))]"
  by (simp add: start_def main_lines_def print_def emit_def)

lemma printed_by_main_progress_line [simp]: "\<not> printed_by_main (Print (progress_line i t))"
  by (simp add: progress_line_def)

lemma main_lines_poll_loop [simp]:
  "main_lines (snd (poll_loop w url token tid timeout_secs n i t0 s)) = main_lines s"
proof (induction n arbitrary: i t0 s)
  case 0
  show ?case
    by (simp add: main_lines_print split: option.splits)
next
  case (Suc n)
  obtain r s1 where call: "api_call w url (Admin_tenant tid) token (emit (Sleep 10) s) = (r, s1)"
    by (cases "api_call w url (Admin_tenant tid) token (emit (Sleep 10) s)")
  from main_lines_api_call [of w url "Admin_tenant tid" token "emit (Sleep 10) s"] call
  have v1: "main_lines s1 = main_lines s"
    by (simp add: main_lines_emit)
  show ?case
  proof (cases r)
    case (Inl e)
    with call v1 show ?thesis
      by simp
  next
    case (Inr t')
    show ?thesis
    proof (cases "as_dict t'")
      case (Inl e)
      with call v1 \<open>r = Inr t'\<close> show ?thesis
        by simp
    next
      case (Inr kvs)
      have "main_lines (snd (poll_loop w url token tid timeout_secs n (i + 1) (Some t')
                               (print (progress_line i kvs) s1))) = main_lines s"
        using Suc.IH [of "i + 1" "Some t'" "print (progress_line i kvs) s1"] v1
        by (simp add: main_lines_print)
      with call v1 \<open>r = Inr t'\<close> Inr show ?thesis
        by (simp add: main_lines_print)
    qed
  qed
qed



subsection \<open>Rules for running the script on a given world\<close>

lemma poll_loop_numeral:
  "poll_loop w url token tenant_id timeout_secs (numeral k) i t s =
     (case api_call w url (Admin_tenant tenant_id) token (emit (Sleep 10) s) of
        (Inl e, s1) \<Rightarrow> (Inl e, s1)
      | (Inr t', s1) \<Rightarrow>
          (case as_dict t' of
             Inl e \<Rightarrow> (Inl e, s1)
           | Inr kvs \<Rightarrow>
               if get kvs ''status'' (JStr ''?'') = JStr ''active''
               then (Inr t', print L_succeeded (print (progress_line i kvs) s1))
               else if get kvs ''status'' (JStr ''?'') = JStr ''failed''
               then (Inr t',
                     print (L_provisioning_failed
                              (get kvs ''provisioningFailedReason'' (JStr ''unknown'')))
                       (print (progress_line i kvs) s1))
               else poll_loop w url token tenant_id timeout_secs (pred_numeral k) (i + 1) (Some t')
                      (print (progress_line i kvs) s1)))"
  by (simp add: numeral_eq_Suc)

lemmas run_eval =
  main_def main_try_def start_def authenticate_def create_tenant_def poll_provisioning_def
  verify_container_def verify_health_monitor_def health_stage_def report_success_def
  health_status_def docker_check_def http_check_def api_call_def emit_def print_def
  urlopen_def get_def MFA_SECRET_B32_def script_def run_world_def setup_answers_def
  default_args_def tenant_record_def totp_before_boundary progress_line_def

subsection \<open>Claims about main\<close>

text \<open>
  C10: for a tenant record without a container endpoint, \<open>verify_container\<close> prints its
  error and returns failure with no docker query and no probe; and when authentication,
  tenant creation and polling have succeeded with such a record in status \<open>active\<close>,
  \<open>main\<close> ends there with exit code 1.
\<close>

theorem no_endpoint_is_hard_failure:
  assumes "lacks_endpoint tenant"
  shows "verify_container w (JObj tenant) s =
           (Inr False, print L_no_endpoint (print L_verifying s)) \<and>
         (\<forall>token s1 tid s2 s3.
            authenticate w (base_url a) (start a) = (Inr token, s1) \<longrightarrow>
            create_tenant w (base_url a) token (tenant_name a) s1 = (Inr tid, s2) \<longrightarrow>
            poll_provisioning w (base_url a) token tid 240 s2 = (Inr (JObj tenant), s3) \<longrightarrow>
            get tenant ''status'' JNull = JStr ''active'' \<longrightarrow>
            main w a =
              (1, print L_failed_container (print L_no_endpoint (print L_verifying s3))))"
proof -
  from lacks_endpoint_config [OF assms] obtain config where
    config: "as_dict (get tenant ''config'' (JObj [])) = Inr config"
      "\<not> truthy (get config ''containerEndpoint'' (JStr []))"
    by blast
  then have vc: "verify_container w (JObj tenant) s =
           (Inr False, print L_no_endpoint (print L_verifying s))" for s
    by (simp add: verify_container_def)
  show ?thesis
    by (simp add: vc main_def main_try_def)
qed

theorem no_endpoint_is_hard_failure_witness:
  "lacks_endpoint [(''id'', JStr ''0a1b2c3d-4e5f''), (''status'', JStr ''active'')] \<and>
   fst (main (run_world (setup_answers @
                [Api_json (JObj [(''id'', JStr ''0a1b2c3d-4e5f''), (''status'', JStr ''active'')])])
              (Status 200))
          default_args) = 1"
proof -
  let ?t = "[(''id'', JStr ''0a1b2c3d-4e5f''), (''status'', JStr ''active'')]"
  let ?w = "run_world (setup_answers @ [Api_json (JObj ?t)]) (Status 200)"
  let ?a = default_args
  define s1 where "s1 = snd (authenticate ?w (base_url ?a) (start ?a))"
  define s2 where
    "s2 = snd (create_tenant ?w (base_url ?a) (JStr ''token'') (tenant_name ?a) s1)"
  define s3 where
    "s3 = snd (poll_provisioning ?w (base_url ?a) (JStr ''token'') (JStr ''0a1b2c3d-4e5f'') 240 s2)"
  have lacks: "lacks_endpoint ?t"
    by (simp add: lacks_endpoint_def)
  have h1: "authenticate ?w (base_url ?a) (start ?a) = (Inr (JStr ''token''), s1)"
    unfolding s1_def by (simp add: run_eval)
  have h2: "create_tenant ?w (base_url ?a) (JStr ''token'') (tenant_name ?a) s1 =
              (Inr (JStr ''0a1b2c3d-4e5f''), s2)"
    unfolding s2_def s1_def by (simp add: run_eval)
  have h3: "poll_provisioning ?w (base_url ?a) (JStr ''token'') (JStr ''0a1b2c3d-4e5f'') 240 s2 =
              (Inr (JObj ?t), s3)"
    unfolding s3_def s2_def s1_def by (simp add: run_eval poll_loop_numeral)
  have h4: "get ?t ''status'' JNull = JStr ''active''"
    by (simp add: get_def)
  from no_endpoint_is_hard_failure [OF lacks, THEN conjunct2, rule_format, OF h1 h2 h3 h4] lacks
  show ?thesis
    by simp
qed

text \<open>
  C4, as stated, where the re-fetch of the tenant record itself fails: authentication,
  tenant creation, polling and the container check have succeeded, the backend answers
  the re-fetch with HTTP 503, and the run ends with a fatal error and exit code 1.
\<close>

theorem health_refetch_failure_counterexample:
  "fst (main (run_world (setup_answers @
                [Api_json (JObj (tenant_record ''active'')), Api_http_error 503 ''unavailable''])
              (Status 200))
          default_args) = 1 \<and>
   Print L_succeeded \<in> set (trace (snd (main (run_world (setup_answers @
                [Api_json (JObj (tenant_record ''active'')), Api_http_error 503 ''unavailable''])
              (Status 200)) default_args))) \<and>
   Print (L_probe_ok 200) \<in> set (trace (snd (main (run_world (setup_answers @
                [Api_json (JObj (tenant_record ''active'')), Api_http_error 503 ''unavailable''])
              (Status 200)) default_args))) \<and>
   last (trace (snd (main (run_world (setup_answers @
                [Api_json (JObj (tenant_record ''active'')), Api_http_error 503 ''unavailable''])
              (Status 200)) default_args))) = Print (L_fatal (HTTPError 503))"
  by (simp add: run_eval poll_loop_numeral)

text \<open>
  C4 as amended: if authentication, tenant creation, polling (with status \<open>active\<close>) and
  the container check all succeed and the re-fetch of the tenant record returns a
  record, then whatever that record says other than \<open>containerHealth.status = "healthy"\<close>
  (no \<open>containerHealth\<close>, one that is not a dict, no \<open>status\<close> in it, any other value),
  the run only prints the health lines with their two warnings and the closing report,
  and exits with code 0.
\<close>

theorem health_monitor_failure_is_warning:
  assumes "authenticate w (base_url a) (start a) = (Inr token, s1)"
    and "create_tenant w (base_url a) token (tenant_name a) s1 = (Inr tid, s2)"
    and "poll_provisioning w (base_url a) token tid 240 s2 = (Inr (JObj tenant), s3)"
    and "get tenant ''status'' JNull = JStr ''active''"
    and "verify_container w (JObj tenant) s3 = (Inr True, s4)"
    and "\<not> skip_health_wait a"
    and "backend w (calls s4) = Api_json (JObj t)"
    and "health_status t \<noteq> JStr ''healthy''"
  shows "\<exists>u. main w a =
           (0, s4\<lparr>calls := calls s4 + 1,
                  trace := trace s4 @
                    [Print L_health, Sleep 35,
                     Api_request (base_url a) (Admin_tenant tid) token,
                     Print (L_health_status (health_status t)),
                     Print (L_health_warning (health_status t)),
                     Print L_health_nonfatal,
                     Print (L_all_passed tid),
                     Print (L_passed_url u)]\<rparr>)"
proof -
  from verify_container_config [OF assms(5)] obtain config where
    config: "as_dict (get tenant ''config'' (JObj [])) = Inr config"
    by blast
  have "backend w (calls (emit (Sleep 35) (print L_health s4))) = Api_json (JObj t)"
    using assms(7) by (simp add: emit_def print_def)
  then have health: "verify_health_monitor w (base_url a) token tid s4 =
      (Inr False,
       s4\<lparr>calls := calls s4 + 1,
          trace := trace s4 @
            [Print L_health, Sleep 35,
             Api_request (base_url a) (Admin_tenant tid) token,
             Print (L_health_status (health_status t)),
             Print (L_health_warning (health_status t))]\<rparr>)"
    using assms(8) by (simp add: verify_health_monitor_def api_call_def emit_def print_def)
  show ?thesis
    using assms(1-6) config
    by (auto simp add: main_def main_try_def health_stage_def health report_success_def
          print_def emit_def)
qed

theorem health_monitor_failure_is_warning_witness:
  "fst (main (run_world (setup_answers @
                [Api_json (JObj (tenant_record ''active'')),
                 Api_json (JObj [(''containerHealth'', JObj [(''status'', JStr ''starting'')])])])
              (Status 200))
          default_args) = 0 \<and>
   fst (main (run_world (setup_answers @
                [Api_json (JObj (tenant_record ''active'')),
                 Api_json (JObj (tenant_record ''active''))])
              (Status 200))
          default_args) = 0"
proof -
  let ?h1 = "[(''containerHealth'', JObj [(''status'', JStr ''starting'')])]"
  let ?h2 = "tenant_record ''active''"
  let ?a = default_args
  have goal: "fst (main (run_world (setup_answers @
                [Api_json (JObj (tenant_record ''active'')), Api_json (JObj h)]) (Status 200))
                ?a) = 0"
    if h: "health_status h \<noteq> JStr ''healthy''" for h
  proof -
    let ?w = "run_world (setup_answers @
                [Api_json (JObj (tenant_record ''active'')), Api_json (JObj h)]) (Status 200)"
    define s1 where "s1 = snd (authenticate ?w (base_url ?a) (start ?a))"
    define s2 where
      "s2 = snd (create_tenant ?w (base_url ?a) (JStr ''token'') (tenant_name ?a) s1)"
    define s3 where
      "s3 = snd (poll_provisioning ?w (base_url ?a) (JStr ''token'') (JStr ''0a1b2c3d-4e5f'')
                   240 s2)"
    define s4 where "s4 = snd (verify_container ?w (JObj (tenant_record ''active'')) s3)"
    have h1: "authenticate ?w (base_url ?a) (start ?a) = (Inr (JStr ''token''), s1)"
      unfolding s1_def by (simp add: run_eval)
    have h2: "create_tenant ?w (base_url ?a) (JStr ''token'') (tenant_name ?a) s1 =
                (Inr (JStr ''0a1b2c3d-4e5f''), s2)"
      unfolding s2_def s1_def by (simp add: run_eval)
    have h3: "poll_provisioning ?w (base_url ?a) (JStr ''token'') (JStr ''0a1b2c3d-4e5f'') 240 s2 =
                (Inr (JObj (tenant_record ''active'')), s3)"
      unfolding s3_def s2_def s1_def by (simp add: run_eval poll_loop_numeral)
    have h4: "get (tenant_record ''active'') ''status'' JNull = JStr ''active''"
      by simp
    have h5: "verify_container ?w (JObj (tenant_record ''active'')) s3 = (Inr True, s4)"
      unfolding s4_def s3_def s2_def s1_def by (simp add: run_eval poll_loop_numeral)
    have h6: "\<not> skip_health_wait ?a"
      by (simp add: default_args_def)
    have h7: "backend ?w (calls s4) = Api_json (JObj h)"
      unfolding s4_def s3_def s2_def s1_def by (simp add: run_eval poll_loop_numeral)
    from health_monitor_failure_is_warning [OF h1 h2 h3 h4 h5 h6 h7 h] show ?thesis
      by auto
  qed
  have "health_status ?h1 \<noteq> JStr ''healthy''" "health_status ?h2 \<noteq> JStr ''healthy''"
    by (simp_all add: health_status_def get_def tenant_record_def)
  then show ?thesis
    using goal [of ?h1] goal [of ?h2] by simp
qed






end
